theory Spec2Isabelle
  imports Main "HOL-Library.Word"
begin

unbundle bit_operations_syntax

section \<open>Data model of \<^verbatim>\<open>thor_devkit/transaction.py\<close>\<close>

text \<open>
  Python values are modelled as follows: \<^verbatim>\<open>int\<close> is \<^typ>\<open>int\<close>, \<^verbatim>\<open>str\<close> is
  \<^typ>\<open>string\<close>, \<^verbatim>\<open>bytes\<close> is a list of 8-bit words, \<^verbatim>\<open>None\<close> is \<^term>\<open>None\<close>,
  and a value annotated \<^verbatim>\<open>Union[str, int]\<close> is a \<open>str_or_int\<close>. Everything the
  module raises is a value of \<open>error\<close>; a function that may raise returns
  \<open>error + 'a\<close> with \<^term>\<open>Inl\<close> for the exception.
\<close>

type_synonym bytes = "8 word list"

datatype str_or_int = StrV string | IntV int

datatype error =
    IndexError
  | KeyError
  | ValueError
  | AttributeError
  | TypeError
  | InvalidDelegateAddress
  | UntrimmedReservedField
  | SerializationError
  | DeserializationError
  | EncodeError
  | DecodeError
  | RecoveryFailure

subsection \<open>Gas estimator\<close>

definition Z_GAS :: int where
  "Z_GAS = 4"

definition NZ_GAS :: int where
  "NZ_GAS = 68"

text \<open>
  The loop \<^verbatim>\<open>for x in range(2, len(data), 2)\<close> of \<^verbatim>\<open>data_gas\<close>, from index \<open>x\<close> on.
  Python's \<^verbatim>\<open>and\<close> evaluates \<^verbatim>\<open>data[x+1]\<close> only when \<^verbatim>\<open>data[x] == '0'\<close>; that read
  raises \<^verbatim>\<open>IndexError\<close> when \<open>x + 1\<close> is past the end.
\<close>

function data_gas_from :: "string \<Rightarrow> nat \<Rightarrow> int \<Rightarrow> error + int" where
  "data_gas_from s x sum_up =
     (if x < length s then
        (if s ! x = CHR ''0'' then
           (if x + 1 < length s then
              (if s ! (x + 1) = CHR ''0''
               then data_gas_from s (x + 2) (sum_up + Z_GAS)
               else data_gas_from s (x + 2) (sum_up + NZ_GAS))
            else Inl IndexError)
         else data_gas_from s (x + 2) (sum_up + NZ_GAS))
      else Inr sum_up)"
  by pat_completeness auto
termination
  by (relation "measure (\<lambda>(s, x, sum_up). length s - x)") auto

declare data_gas_from.simps [simp del]

definition data_gas :: "string \<Rightarrow> error + int" where
  "data_gas s = data_gas_from s 2 0"

definition TX_GAS :: int where
  "TX_GAS = 5000"

definition CLAUSE_GAS :: int where
  "CLAUSE_GAS = 16000"

definition CLAUSE_CONTRACT_CREATION :: int where
  "CLAUSE_CONTRACT_CREATION = 48000"

record Clause =
  to :: "string option"
  "value" :: "str_or_int"
  data :: "string"

text \<open>Truthiness of a value annotated \<^verbatim>\<open>Union[str, None]\<close>: \<^verbatim>\<open>None\<close> and \<^verbatim>\<open>''\<close> are false.\<close>

definition truthy_str :: "string option \<Rightarrow> bool" where
  "truthy_str v = (case v of None \<Rightarrow> False | Some s \<Rightarrow> s \<noteq> [])"

text \<open>The loop \<^verbatim>\<open>for clause in clauses\<close> of \<^verbatim>\<open>intrinsic_gas\<close>, with \<open>sum_total\<close> so far.\<close>

fun intrinsic_gas_loop :: "Clause list \<Rightarrow> int \<Rightarrow> error + int" where
  "intrinsic_gas_loop [] sum_total = Inr sum_total"
| "intrinsic_gas_loop (clause # rest) sum_total =
     (let clause_sum = (if truthy_str (to clause) then CLAUSE_GAS else CLAUSE_CONTRACT_CREATION)
      in case data_gas (data clause) of
           Inl e \<Rightarrow> Inl e
         | Inr g \<Rightarrow> intrinsic_gas_loop rest (sum_total + (clause_sum + g)))"

definition intrinsic_gas :: "Clause list \<Rightarrow> error + int" where
  "intrinsic_gas cls =
     (if length cls = 0 then Inr (TX_GAS + CLAUSE_GAS)
      else intrinsic_gas_loop cls (0 + TX_GAS))"

text \<open>
  The reading of \<^verbatim>\<open>data_gas\<close> in the specification: the hex-digit pairs after the
  two-character prefix, 4 for a pair \<^verbatim>\<open>00\<close>, 68 for any other pair.
\<close>

fun hex_pairs :: "string \<Rightarrow> (char \<times> char) list" where
  "hex_pairs (a # b # rest) = (a, b) # hex_pairs rest"
| "hex_pairs _ = []"

definition zero_pairs :: "string \<Rightarrow> nat" where
  "zero_pairs s = length (filter (\<lambda>p. p = (CHR ''0'', CHR ''0'')) (hex_pairs (drop 2 s)))"

definition nonzero_pairs :: "string \<Rightarrow> nat" where
  "nonzero_pairs s = length (filter (\<lambda>p. p \<noteq> (CHR ''0'', CHR ''0'')) (hex_pairs (drop 2 s)))"

definition data_gas_spec :: "string \<Rightarrow> int" where
  "data_gas_spec s = 4 * int (zero_pairs s) + 68 * int (nonzero_pairs s)"

subsection \<open>Value objects and their dictionary projections\<close>

record Reserved =
  features :: "int option"
  unused :: "bytes list option"

record Body =
  chain_tag :: int
  block_ref :: string
  expiration :: int
  clauses :: "Clause list"
  gas_price_coef :: int
  gas :: str_or_int
  depends_on :: "string option"
  nonce :: str_or_int
  reserved :: "Reserved option"

text \<open>
  A Python dict with a fixed set of keys is a record: field \<open>k_x\<close> holds the value under
  key \<^verbatim>\<open>'x'\<close>, and a key that may be missing is an option. The value under
  \<^verbatim>\<open>'reserved'\<close> is a dict in \<^verbatim>\<open>Body.to_dict\<close> and a list of byte strings in what the
  codec reads and writes, so its type is a parameter.
\<close>

record clause_dict =
  k_to :: "string option"
  k_value :: str_or_int
  k_data :: string

record reserved_dict =
  k_features :: "int option"
  k_unused :: "bytes list option"

record 'r tx_dict =
  k_chainTag :: int
  k_blockRef :: string
  k_expiration :: int
  k_clauses :: "clause_dict list"
  k_gasPriceCoef :: int
  k_gas :: str_or_int
  k_dependsOn :: "string option"
  k_nonce :: str_or_int
  k_reserved :: 'r

text \<open>
  The dict of the signed schema: the same keys and \<^verbatim>\<open>'signature'\<close>. What \<^verbatim>\<open>encode\<close>
  builds has that key; what the codec returns for a payload that ends before its tenth
  item has not, so the value is an option.
\<close>

record 'r signed_tx_dict = "'r tx_dict" +
  k_signature :: "bytes option"

definition Clause_to_dict :: "Clause \<Rightarrow> clause_dict" where
  "Clause_to_dict c = \<lparr>k_to = to c, k_value = value c, k_data = data c\<rparr>"

text \<open>Truthiness of an optional \<^verbatim>\<open>int\<close> (\<^verbatim>\<open>None\<close> and \<^verbatim>\<open>0\<close> are false) and of an optional
  list or byte string (\<^verbatim>\<open>None\<close> and the empty one are false).\<close>

definition truthy_int :: "int option \<Rightarrow> bool" where
  "truthy_int v = (case v of None \<Rightarrow> False | Some n \<Rightarrow> n \<noteq> 0)"

definition truthy_list :: "'a list option \<Rightarrow> bool" where
  "truthy_list v = (case v of None \<Rightarrow> False | Some xs \<Rightarrow> xs \<noteq> [])"

text \<open>\<^verbatim>\<open>Body.to_dict\<close>: the key \<^verbatim>\<open>'reserved'\<close> is set only when the Body has a Reserved
  object (an object without \<^verbatim>\<open>__bool__\<close> is true), and the dict under it gets a key only
  for a true \<^verbatim>\<open>features\<close> and a true \<^verbatim>\<open>unused\<close>.\<close>

definition Body_to_dict :: "Body \<Rightarrow> reserved_dict option tx_dict" where
  "Body_to_dict b =
     \<lparr>k_chainTag = chain_tag b,
      k_blockRef = block_ref b,
      k_expiration = expiration b,
      k_clauses = map Clause_to_dict (clauses b),
      k_gasPriceCoef = gas_price_coef b,
      k_gas = gas b,
      k_dependsOn = depends_on b,
      k_nonce = nonce b,
      k_reserved =
        (case reserved b of
           None \<Rightarrow> None
         | Some rsv \<Rightarrow>
             Some \<lparr>k_features = (if truthy_int (features rsv) then features rsv else None),
                   k_unused = (if truthy_list (unused rsv) then unused rsv else None)\<rparr>)\<rparr>"

text \<open>Truthiness of \<^verbatim>\<open>d.get('reserved')\<close>: a missing key and the empty dict are false.\<close>

definition truthy_dict :: "reserved_dict option \<Rightarrow> bool" where
  "truthy_dict v = (case v of None \<Rightarrow> False | Some r \<Rightarrow> k_features r \<noteq> None \<or> k_unused r \<noteq> None)"

subsection \<open>Transaction\<close>

record Transaction =
  body :: Body
  signature :: "bytes option"

definition DELEGATED_MASK :: int where
  "DELEGATED_MASK = 1"

definition is_delegated :: "Transaction \<Rightarrow> bool" where
  "is_delegated tx =
     (let r = k_reserved (Body_to_dict (body tx)) in
      if \<not> truthy_dict r then False
      else case r of
             None \<Rightarrow> False
           | Some rd \<Rightarrow>
               if \<not> truthy_int (k_features rd) then False
               else (case k_features rd of
                       None \<Rightarrow> False
                     | Some f \<Rightarrow> f AND DELEGATED_MASK = DELEGATED_MASK))"

definition get_signature :: "Transaction \<Rightarrow> bytes option" where
  "get_signature tx = signature tx"

definition signature_valid :: "Transaction \<Rightarrow> bool" where
  "signature_valid tx =
     (let expected_sig_len = (if is_delegated tx then 65 * 2 else 65) in
      if \<not> truthy_list (get_signature tx) then False
      else (case get_signature tx of
              None \<Rightarrow> False
            | Some sig \<Rightarrow> length sig = expected_sig_len))"


subsection \<open>Collaborators\<close>

text \<open>
  The modules \<^verbatim>\<open>rlp\<close> and \<^verbatim>\<open>cry\<close> that \<^verbatim>\<open>transaction.py\<close> imports are not part of the
  verified source. What it calls of them is a parameter of the model: the numeric kind
  \<^verbatim>\<open>FeaturesKind = NumericKind(4)\<close>, the codec of the unsigned and of the signed schema
  (\<^verbatim>\<open>ComplexCodec(UnsignedTxWrapper)\<close>, \<^verbatim>\<open>ComplexCodec(SignedTxWrapper)\<close>), the hash
  \<^verbatim>\<open>blake2b256\<close> (its first component), \<^verbatim>\<open>secp256k1.recover\<close>, \<^verbatim>\<open>address.is_address\<close> and
  \<^verbatim>\<open>address.public_key_to_address\<close>. A collaborator that may raise returns an option,
  \<^term>\<open>None\<close> when it raises.
\<close>

record env =
  FeaturesKind_serialize :: "int \<Rightarrow> bytes option"
  FeaturesKind_deserialize :: "bytes \<Rightarrow> int option"
  UnsignedTx_encode :: "bytes list tx_dict \<Rightarrow> bytes option"
  UnsignedTx_decode :: "bytes \<Rightarrow> bytes list tx_dict option"
  SignedTx_encode :: "bytes list signed_tx_dict \<Rightarrow> bytes option"
  SignedTx_decode :: "bytes \<Rightarrow> bytes list signed_tx_dict option"
  blake2b256 :: "bytes list \<Rightarrow> bytes"
  recover :: "bytes \<Rightarrow> bytes \<Rightarrow> bytes option"
  is_address :: "string \<Rightarrow> bool"
  public_key_to_address :: "bytes \<Rightarrow> bytes option"

subsection \<open>Python's \<^verbatim>\<open>bytes.hex\<close> and \<^verbatim>\<open>bytes.fromhex\<close>\<close>

definition hex_char :: "nat \<Rightarrow> char" where
  "hex_char n = ''0123456789abcdef'' ! n"

definition bytes_hex :: "bytes \<Rightarrow> string" where
  "bytes_hex bs = concat (map (\<lambda>b. [hex_char (unat b div 16), hex_char (unat b mod 16)]) bs)"

definition hex_digit :: "char \<Rightarrow> nat option" where
  "hex_digit c =
     (let n = (of_char c :: nat) in
      if 48 \<le> n \<and> n \<le> 57 then Some (n - 48)
      else if 97 \<le> n \<and> n \<le> 102 then Some (n - 87)
      else if 65 \<le> n \<and> n \<le> 70 then Some (n - 55)
      else None)"

definition is_space :: "char \<Rightarrow> bool" where
  "is_space c = ((of_char c :: nat) \<in> {9, 10, 11, 12, 13, 32})"

text \<open>\<^verbatim>\<open>bytes.fromhex\<close> skips ASCII whitespace before a pair of hex digits and raises
  \<^verbatim>\<open>ValueError\<close> (here \<^term>\<open>None\<close>) on anything else that is not a pair of hex digits.\<close>

fun bytes_fromhex :: "string \<Rightarrow> bytes option" where
  "bytes_fromhex [] = Some []"
| "bytes_fromhex [c] = (if is_space c then Some [] else None)"
| "bytes_fromhex (c # d # rest) =
     (if is_space c then bytes_fromhex (d # rest)
      else case hex_digit c of
             None \<Rightarrow> None
           | Some hi \<Rightarrow>
               (case hex_digit d of
                  None \<Rightarrow> None
                | Some lo \<Rightarrow>
                    (case bytes_fromhex rest of
                       None \<Rightarrow> None
                     | Some bs \<Rightarrow> Some (of_nat (16 * hi + lo) # bs))))"

subsection \<open>Reserved-field canonicalizer\<close>

text \<open>Python's \<^verbatim>\<open>x or 0\<close> on an optional \<^verbatim>\<open>int\<close> and \<^verbatim>\<open>x or []\<close> on an optional list.\<close>

definition or_zero :: "int option \<Rightarrow> int" where
  "or_zero v = (if truthy_int v then (case v of Some n \<Rightarrow> n | None \<Rightarrow> 0) else 0)"

definition or_empty :: "'a list option \<Rightarrow> 'a list" where
  "or_empty v = (if truthy_list v then (case v of Some xs \<Rightarrow> xs | None \<Rightarrow> []) else [])"

text \<open>
  The loop \<^verbatim>\<open>for i in range(len(length_list) - 1, -1, -1)\<close> of \<^verbatim>\<open>_encode_reserved\<close>: the
  second argument counts the indices still to visit, so the index visited is one less.
\<close>

primrec right_most_none_empty :: "nat list \<Rightarrow> nat \<Rightarrow> nat option" where
  "right_most_none_empty length_list 0 = None"
| "right_most_none_empty length_list (Suc i) =
     (if length_list ! i \<noteq> 0 then Some i else right_most_none_empty length_list i)"

definition encode_reserved :: "env \<Rightarrow> Transaction \<Rightarrow> error + bytes list" where
  "encode_reserved E tx =
     (let r = k_reserved (Body_to_dict (body tx));
          rsv = (if \<not> truthy_dict r then Some \<lparr>features = None, unused = None\<rparr>
                 else reserved (body tx))
      in case rsv of
           None \<Rightarrow> Inl AttributeError
         | Some rs \<Rightarrow>
             (let f = or_zero (features rs); l = or_empty (unused rs)
              in case FeaturesKind_serialize E f of
                   None \<Rightarrow> Inl SerializationError
                 | Some fb \<Rightarrow>
                     (let m_list = [fb] @ l; length_list = map length m_list
                      in case right_most_none_empty length_list (length length_list) of
                           None \<Rightarrow> Inr []
                         | Some i \<Rightarrow> Inr (map (\<lambda>y. m_list ! y) [0 ..< i + 1]))))"

text \<open>The wording of the specification: the candidate list truncated right after its
  right-most element of non-zero length.\<close>

definition strip_trailing_empty :: "bytes list \<Rightarrow> bytes list" where
  "strip_trailing_empty xs = rev (dropWhile (\<lambda>x. length x = 0) (rev xs))"

text \<open>The \<^verbatim>\<open>features\<close> and the \<^verbatim>\<open>unused\<close> of a Body's Reserved, with the defaults of the
  specification (0 and the empty sequence) when the Reserved or the value is absent.\<close>

definition reserved_features :: "Body \<Rightarrow> int" where
  "reserved_features b =
     (case reserved b of None \<Rightarrow> 0 | Some r \<Rightarrow> (case features r of None \<Rightarrow> 0 | Some f \<Rightarrow> f))"

definition reserved_unused :: "Body \<Rightarrow> bytes list" where
  "reserved_unused b =
     (case reserved b of None \<Rightarrow> [] | Some r \<Rightarrow> (case unused r of None \<Rightarrow> [] | Some l \<Rightarrow> l))"

subsection \<open>Signing hash\<close>

text \<open>\<^verbatim>\<open>temp.update({'reserved': reserved_list})\<close>: the value under \<^verbatim>\<open>'reserved'\<close> changes
  from a dict to a list.\<close>

definition update_reserved :: "'a tx_dict \<Rightarrow> 'b \<Rightarrow> 'b tx_dict" where
  "update_reserved d r =
     \<lparr>k_chainTag = k_chainTag d,
      k_blockRef = k_blockRef d,
      k_expiration = k_expiration d,
      k_clauses = k_clauses d,
      k_gasPriceCoef = k_gasPriceCoef d,
      k_gas = k_gas d,
      k_dependsOn = k_dependsOn d,
      k_nonce = k_nonce d,
      k_reserved = r\<rparr>"

definition get_signing_hash :: "env \<Rightarrow> Transaction \<Rightarrow> string option \<Rightarrow> error + bytes" where
  "get_signing_hash E tx delegate_for =
     (case encode_reserved E tx of
        Inl e \<Rightarrow> Inl e
      | Inr reserved_list \<Rightarrow>
          (let temp = update_reserved (Body_to_dict (body tx)) reserved_list
           in case UnsignedTx_encode E temp of
                None \<Rightarrow> Inl EncodeError
              | Some buff \<Rightarrow>
                  (let h = blake2b256 E [buff]
                   in if truthy_str delegate_for then
                        (case delegate_for of
                           None \<Rightarrow> Inr h
                         | Some d \<Rightarrow>
                             if \<not> is_address E d then Inl InvalidDelegateAddress
                             else (case bytes_fromhex (drop 2 d) of
                                     None \<Rightarrow> Inl ValueError
                                   | Some a \<Rightarrow> Inr (blake2b256 E [h, a])))
                      else Inr h)))"

definition get_intrinsic_gas :: "Transaction \<Rightarrow> error + int" where
  "get_intrinsic_gas tx = intrinsic_gas (clauses (body tx))"

subsection \<open>Origin, delegator and id\<close>

text \<open>The body of the \<^verbatim>\<open>try\<close> of \<^verbatim>\<open>get_origin\<close>; \<^verbatim>\<open>None[0:65]\<close> would raise \<^verbatim>\<open>TypeError\<close>.\<close>

definition get_origin_try :: "env \<Rightarrow> Transaction \<Rightarrow> error + string" where
  "get_origin_try E tx =
     (case get_signing_hash E tx None of
        Inl e \<Rightarrow> Inl e
      | Inr my_sign_hash \<Rightarrow>
          (case get_signature tx of
             None \<Rightarrow> Inl TypeError
           | Some sig \<Rightarrow>
               (case recover E my_sign_hash (take 65 sig) of
                  None \<Rightarrow> Inl RecoveryFailure
                | Some pub_key \<Rightarrow>
                    (case public_key_to_address E pub_key of
                       None \<Rightarrow> Inl RecoveryFailure
                     | Some a \<Rightarrow> Inr (''0x'' @ bytes_hex a)))))"

text \<open>\<^verbatim>\<open>try: ... except: return None\<close>.\<close>

definition except_None :: "error + 'a \<Rightarrow> error + 'a option" where
  "except_None r = (case r of Inl e \<Rightarrow> Inr None | Inr v \<Rightarrow> Inr (Some v))"

definition get_origin :: "env \<Rightarrow> Transaction \<Rightarrow> error + string option" where
  "get_origin E tx =
     (if \<not> signature_valid tx then Inr None
      else except_None (get_origin_try E tx))"

definition get_delegator_try :: "env \<Rightarrow> Transaction \<Rightarrow> string option \<Rightarrow> error + string" where
  "get_delegator_try E tx origin =
     (case get_signing_hash E tx origin of
        Inl e \<Rightarrow> Inl e
      | Inr my_sign_hash \<Rightarrow>
          (case get_signature tx of
             None \<Rightarrow> Inl TypeError
           | Some sig \<Rightarrow>
               (case recover E my_sign_hash (drop 65 sig) of
                  None \<Rightarrow> Inl RecoveryFailure
                | Some pub_key \<Rightarrow>
                    (case public_key_to_address E pub_key of
                       None \<Rightarrow> Inl RecoveryFailure
                     | Some a \<Rightarrow> Inr (''0x'' @ bytes_hex a)))))"

definition get_delegator :: "env \<Rightarrow> Transaction \<Rightarrow> error + string option" where
  "get_delegator E tx =
     (if \<not> is_delegated tx then Inr None
      else if \<not> signature_valid tx then Inr None
      else case get_origin E tx of
             Inl e \<Rightarrow> Inl e
           | Inr origin \<Rightarrow>
               if \<not> truthy_str origin then Inr None
               else except_None (get_delegator_try E tx origin))"

definition get_id_try :: "env \<Rightarrow> Transaction \<Rightarrow> error + string" where
  "get_id_try E tx =
     (case get_signing_hash E tx None of
        Inl e \<Rightarrow> Inl e
      | Inr my_sign_hash \<Rightarrow>
          (case get_signature tx of
             None \<Rightarrow> Inl TypeError
           | Some sig \<Rightarrow>
               (case recover E my_sign_hash (take 65 sig) of
                  None \<Rightarrow> Inl RecoveryFailure
                | Some pub_key \<Rightarrow>
                    (case public_key_to_address E pub_key of
                       None \<Rightarrow> Inl RecoveryFailure
                     | Some origin \<Rightarrow>
                         Inr (''0x'' @ bytes_hex (blake2b256 E [my_sign_hash, origin]))))))"

definition get_id :: "env \<Rightarrow> Transaction \<Rightarrow> error + string option" where
  "get_id E tx =
     (if \<not> signature_valid tx then Inr None
      else except_None (get_id_try E tx))"

text \<open>The address bytes recovered from a signature over a hash: \<^verbatim>\<open>secp256k1.recover\<close> followed by
  \<^verbatim>\<open>address.public_key_to_address\<close>, \<^term>\<open>None\<close> when either raises.\<close>

definition recovered :: "env \<Rightarrow> bytes \<Rightarrow> bytes \<Rightarrow> bytes option" where
  "recovered E h sg =
     (case recover E h sg of
        None \<Rightarrow> None
      | Some pub_key \<Rightarrow> public_key_to_address E pub_key)"

subsection \<open>Encode and decode\<close>

definition encode :: "env \<Rightarrow> Transaction \<Rightarrow> error + bytes" where
  "encode E tx =
     (case encode_reserved E tx of
        Inl e \<Rightarrow> Inl e
      | Inr reserved_list \<Rightarrow>
          if truthy_list (signature tx) then
            (case signature tx of
               None \<Rightarrow> Inl TypeError
             | Some sig \<Rightarrow>
                 (let temp = tx_dict.extend
                        (update_reserved (Body_to_dict (body tx)) reserved_list)
                        \<lparr>k_signature = Some sig\<rparr>
                  in case SignedTx_encode E temp of
                       None \<Rightarrow> Inl EncodeError
                     | Some raw \<Rightarrow> Inr raw))
          else
            (let temp = update_reserved (Body_to_dict (body tx)) reserved_list
             in case UnsignedTx_encode E temp of
                  None \<Rightarrow> Inl EncodeError
                | Some raw \<Rightarrow> Inr raw))"

text \<open>
  The first part of \<^verbatim>\<open>decode\<close> (its flag \<^verbatim>\<open>unsigned\<close> is \<open>is_unsigned\<close> here): the codec
  of the matching schema gives the dict \<^verbatim>\<open>body\<close>, and for the signed schema
  \<^verbatim>\<open>sig = decoded['signature']\<close> is taken out of it, which raises \<^verbatim>\<open>KeyError\<close> when the
  dict has no such key.
\<close>

definition decode_dict :: "env \<Rightarrow> bytes \<Rightarrow> bool \<Rightarrow> error + bytes list tx_dict \<times> bytes option" where
  "decode_dict E raw is_unsigned =
     (if is_unsigned then
        (case UnsignedTx_decode E raw of
           None \<Rightarrow> Inl DecodeError
         | Some d \<Rightarrow> Inr (d, None))
      else
        (case SignedTx_decode E raw of
           None \<Rightarrow> Inl DecodeError
         | Some decoded \<Rightarrow>
             (case k_signature decoded of
                None \<Rightarrow> Inl KeyError
              | Some sg \<Rightarrow> Inr (tx_dict.truncate decoded, Some sg))))"

text \<open>
  The block \<^verbatim>\<open>if len(r) > 0: ... else: del body['reserved']\<close>: what stands under
  \<^verbatim>\<open>'reserved'\<close> afterwards, \<^term>\<open>None\<close> when the key is deleted.
\<close>

definition decode_reserved :: "env \<Rightarrow> bytes list \<Rightarrow> error + reserved_dict option" where
  "decode_reserved E r =
     (if length r > 0 then
        (if length (last r) = 0 then Inl UntrimmedReservedField
         else case FeaturesKind_deserialize E (r ! 0) of
                None \<Rightarrow> Inl DeserializationError
              | Some ft \<Rightarrow>
                  Inr (Some \<lparr>k_features = Some ft,
                             k_unused = (if length r > 1 then Some (drop 1 r) else None)\<rparr>))
      else Inr None)"

definition decode :: "env \<Rightarrow> bytes \<Rightarrow> bool \<Rightarrow> error + Transaction" where
  "decode E raw is_unsigned =
     (case decode_dict E raw is_unsigned of
        Inl e \<Rightarrow> Inl e
      | Inr (d, sig) \<Rightarrow>
          (case decode_reserved E (k_reserved d) of
             Inl e \<Rightarrow> Inl e
           | Inr rd \<Rightarrow>
               (let body_d = update_reserved d rd;
                    cls = map (\<lambda>each. \<lparr>to = k_to each, value = k_value each,
                                          data = k_data each\<rparr>) (k_clauses body_d)
                in case (if truthy_dict (k_reserved body_d) then
                           (case k_reserved body_d of
                              None \<Rightarrow> Inl AttributeError
                            | Some rv \<Rightarrow>
                                (case k_features rv of
                                   None \<Rightarrow> Inl KeyError
                                 | Some ft \<Rightarrow>
                                     Inr (Some \<lparr>features = Some ft, unused = k_unused rv\<rparr>)))
                         else Inr None) of
                     Inl e \<Rightarrow> Inl e
                   | Inr rsv \<Rightarrow>
                       Inr \<lparr>body =
                              \<lparr>chain_tag = k_chainTag body_d,
                               block_ref = k_blockRef body_d,
                               expiration = k_expiration body_d,
                               clauses = cls,
                               gas_price_coef = k_gasPriceCoef body_d,
                               gas = k_gas body_d,
                               depends_on = k_dependsOn body_d,
                               nonce = k_nonce body_d,
                               reserved = rsv\<rparr>,
                            signature = (if truthy_list sig then sig else None)\<rparr>)))"



text \<open>\<^verbatim>\<open>Transaction.__eq__\<close>.\<close>

definition Transaction_eq :: "Transaction \<Rightarrow> Transaction \<Rightarrow> bool" where
  "Transaction_eq self other =
     (let flag_1 = (signature self = signature other);
          flag_2 = (Body_to_dict (body self) = Body_to_dict (body other))
      in flag_1 \<and> flag_2)"

subsection \<open>A concrete instance of the collaborators\<close>

text \<open>
  Modelled from the spec: the numeric field kind of its section 6, a ``fixed-width
  unsigned big-endian integer of width N bytes (serialize validates the value fits in N
  bytes; deserialize rejects overlong input)''. By its section 8 the value 0 has an
  encoding of length zero, so leading zero bytes are not written.
\<close>

definition numeric_serialize :: "nat \<Rightarrow> int \<Rightarrow> bytes option" where
  "numeric_serialize n v =
     (if v < 0 \<or> 256 ^ n \<le> v then None
      else Some (dropWhile (\<lambda>b. b = 0) (map (\<lambda>i. word_of_int (v div 256 ^ i)) (rev [0 ..< n]))))"

definition numeric_deserialize :: "nat \<Rightarrow> bytes \<Rightarrow> int option" where
  "numeric_deserialize n bs =
     (if n < length bs then None else Some (foldl (\<lambda>acc b. acc * 256 + uint b) 0 bs))"

text \<open>
  The instance below runs the model on concrete transactions. Its numeric kind is the one
  above at width 4. Its codec is a finite table between the dicts of the examples and
  their wire bytes; the wire \<open>[5]\<close> of the unsigned schema, read with the signed schema,
  gives the same dict without \<^verbatim>\<open>'signature'\<close>. Its hash pads or cuts the concatenated buffers to 32 bytes, its
  recovery returns the 65 signature bytes as the public key, and its address is 20 bytes
  of the public key: stand-ins of the right shapes for the collaborators, whose real
  implementations are outside the verified source.
\<close>

definition demo_clause :: clause_dict where
  "demo_clause =
     \<lparr>k_to = Some ''0x7567d83b7b8d80addcb281a71d54fc7b3364ffed'',
      k_value = IntV 10000,
      k_data = ''0x000000606060''\<rparr>"

definition demo_dict :: "clause_dict list \<Rightarrow> bytes list \<Rightarrow> bytes list tx_dict" where
  "demo_dict cls rsv =
     \<lparr>k_chainTag = 1,
      k_blockRef = ''0x00000000aabbccdd'',
      k_expiration = 32,
      k_clauses = cls,
      k_gasPriceCoef = 128,
      k_gas = IntV 21000,
      k_dependsOn = None,
      k_nonce = IntV 12345678,
      k_reserved = rsv\<rparr>"

definition demo_unsigned_table :: "(bytes \<times> bytes list tx_dict) list" where
  "demo_unsigned_table =
     [([1], demo_dict [] []),
      ([2], demo_dict [demo_clause] []),
      ([3], demo_dict [demo_clause] [[1]]),
      ([4], demo_dict [demo_clause] [[5]]),
      ([5], demo_dict [demo_clause] [[1], []]),
      ([6], demo_dict [demo_clause] [[], [7]]),
      ([7], demo_dict [demo_clause, demo_clause, demo_clause] [[1], [], [9]])]"

definition demo_signed_table :: "(bytes \<times> bytes list signed_tx_dict) list" where
  "demo_signed_table =
     [([11], tx_dict.extend (demo_dict [demo_clause] [])
               \<lparr>k_signature = Some (replicate 65 17)\<rparr>),
      ([12], tx_dict.extend (demo_dict [demo_clause] [[1]])
               \<lparr>k_signature = Some (replicate 65 17 @ replicate 65 34)\<rparr>),
      ([13], tx_dict.extend (demo_dict [demo_clause] [[1], []])
               \<lparr>k_signature = Some (replicate 65 17 @ replicate 65 34)\<rparr>),
      ([5], tx_dict.extend (demo_dict [demo_clause] [[1], []]) \<lparr>k_signature = None\<rparr>)]"

definition table_encode :: "(bytes \<times> 'd) list \<Rightarrow> 'd \<Rightarrow> bytes option" where
  "table_encode t d = map_option fst (find (\<lambda>(w, d'). d' = d) t)"

definition table_decode :: "(bytes \<times> 'd) list \<Rightarrow> bytes \<Rightarrow> 'd option" where
  "table_decode t w = map_of t w"

definition demo_blake2b256 :: "bytes list \<Rightarrow> bytes" where
  "demo_blake2b256 bufs = take 32 (concat bufs @ replicate 32 0)"

definition demo_recover :: "bytes \<Rightarrow> bytes \<Rightarrow> bytes option" where
  "demo_recover h sg = (if length h = 32 \<and> length sg = 65 then Some sg else None)"

definition demo_is_address :: "string \<Rightarrow> bool" where
  "demo_is_address s =
     (length s = 42 \<and> take 2 s = ''0x'' \<and> list_all (\<lambda>c. hex_digit c \<noteq> None) (drop 2 s))"

definition demo_public_key_to_address :: "bytes \<Rightarrow> bytes option" where
  "demo_public_key_to_address pk = (if length pk = 65 then Some (take 20 (drop 1 pk)) else None)"

definition demo_env :: env where
  "demo_env =
     \<lparr>FeaturesKind_serialize = numeric_serialize 4,
      FeaturesKind_deserialize = numeric_deserialize 4,
      UnsignedTx_encode = table_encode demo_unsigned_table,
      UnsignedTx_decode = table_decode demo_unsigned_table,
      SignedTx_encode = table_encode demo_signed_table,
      SignedTx_decode = table_decode demo_signed_table,
      blake2b256 = demo_blake2b256,
      recover = demo_recover,
      is_address = demo_is_address,
      public_key_to_address = demo_public_key_to_address\<rparr>"

definition demo_body :: "Clause list \<Rightarrow> Reserved option \<Rightarrow> Body" where
  "demo_body cls rsv =
     \<lparr>chain_tag = 1,
      block_ref = ''0x00000000aabbccdd'',
      expiration = 32,
      clauses = cls,
      gas_price_coef = 128,
      gas = IntV 21000,
      depends_on = None,
      nonce = IntV 12345678,
      reserved = rsv\<rparr>"

definition demo_Clause :: Clause where
  "demo_Clause =
     \<lparr>to = Some ''0x7567d83b7b8d80addcb281a71d54fc7b3364ffed'',
      value = IntV 10000,
      data = ''0x000000606060''\<rparr>"

definition demo_tx :: "Reserved option \<Rightarrow> bytes option \<Rightarrow> Transaction" where
  "demo_tx rsv sg = \<lparr>body = demo_body [demo_Clause] rsv, signature = sg\<rparr>"

definition demo_delegated_tx :: "bytes option \<Rightarrow> Transaction" where
  "demo_delegated_tx sg = demo_tx (Some \<lparr>features = Some 1, unused = None\<rparr>) sg"

definition demo_sig :: bytes where
  "demo_sig = replicate 65 17 @ replicate 65 34"

section \<open>Gas estimator: properties\<close>

lemma data_gas_from_even:
  "even (length s - x) \<Longrightarrow> x \<le> length s \<Longrightarrow>
   data_gas_from s x acc =
     Inr (acc + 4 * int (length (filter (\<lambda>p. p = (CHR ''0'', CHR ''0'')) (hex_pairs (drop x s))))
              + 68 * int (length (filter (\<lambda>p. p \<noteq> (CHR ''0'', CHR ''0'')) (hex_pairs (drop x s)))))"
proof (induction s x acc rule: data_gas_from.induct)
  case (1 s x sum_up)
  show ?case
  proof (cases "x < length s")
    case False
    then show ?thesis
      by (simp add: data_gas_from.simps [of s x sum_up])
  next
    case True
    with "1.prems" have x1: "x + 1 < length s"
      by (metis Suc_eq_plus1 Suc_lessI add_diff_cancel_left' odd_one)
    have ev: "even (length s - (x + 2))" and le: "x + 2 \<le> length s"
      using "1.prems" x1 by auto
    have dr: "drop x s = s ! x # s ! (x + 1) # drop (x + 2) s"
      using x1 True by (metis Cons_nth_drop_Suc Suc_eq_plus1 add_2_eq_Suc')
    show ?thesis
      using True x1 "1.IH"(1) [OF True _ x1 _ ev le] "1.IH"(2) [OF True _ x1 _ ev le]
        "1.IH"(3) [OF True _ ev le]
      by (simp add: data_gas_from.simps [of s x sum_up] dr Z_GAS_def NZ_GAS_def)
  qed
qed

lemma data_gas_from_past_end:
  "length s \<le> x \<Longrightarrow> data_gas_from s x acc = Inr acc"
  by (simp add: data_gas_from.simps [of s x acc])

lemma data_gas_from_odd:
  "odd (length s - x) \<Longrightarrow>
   data_gas_from s x acc =
     (if last s = CHR ''0'' then Inl IndexError
      else Inr (acc + 4 * int (length (filter (\<lambda>p. p = (CHR ''0'', CHR ''0'')) (hex_pairs (drop x s))))
                    + 68 * int (length (filter (\<lambda>p. p \<noteq> (CHR ''0'', CHR ''0'')) (hex_pairs (drop x s))))
                    + 68))"
proof (induction s x acc rule: data_gas_from.induct)
  case (1 s x sum_up)
  from "1.prems" have lt: "x < length s"
    by (cases "x < length s") auto
  show ?case
  proof (cases "x + 1 < length s")
    case True
    have od: "odd (length s - (x + 2))"
      using "1.prems" True by auto
    have dr: "drop x s = s ! x # s ! (x + 1) # drop (x + 2) s"
      using True lt by (metis Cons_nth_drop_Suc Suc_eq_plus1 add_2_eq_Suc')
    show ?thesis
      using lt True "1.IH"(1) [OF lt _ True _ od] "1.IH"(2) [OF lt _ True _ od]
        "1.IH"(3) [OF lt _ od]
      by (simp add: data_gas_from.simps [of s x sum_up] dr Z_GAS_def NZ_GAS_def)
  next
    case False
    with lt have eq: "length s = x + 1"
      by simp
    then have ne: "s \<noteq> []"
      by auto
    have la: "last s = s ! x"
      using eq ne by (simp add: last_conv_nth)
    have dr: "drop x s = [s ! x]"
      using eq lt by (metis Cons_nth_drop_Suc Suc_eq_plus1 drop_all order_refl)
    show ?thesis
      using lt False la
      by (simp add: data_gas_from.simps [of s x sum_up] dr NZ_GAS_def
          data_gas_from_past_end eq)
  qed
qed

lemma data_gas_even:
  assumes "even (length s)"
  shows "data_gas s = Inr (data_gas_spec s)"
proof (cases "2 \<le> length s")
  case True
  with assms have "even (length s - 2)"
    by simp
  from data_gas_from_even [OF this True, of 0] show ?thesis
    by (simp add: data_gas_def data_gas_spec_def zero_pairs_def nonzero_pairs_def)
next
  case False
  then have "length s = 0 \<or> length s = 1"
    by arith
  with assms have "length s = 0"
    by auto
  then show ?thesis
    by (simp add: data_gas_def data_gas_spec_def zero_pairs_def nonzero_pairs_def
        data_gas_from_past_end)
qed

lemma data_gas_odd:
  assumes "odd (length s)" and "3 \<le> length s"
  shows "data_gas s =
     (if last s = CHR ''0'' then Inl IndexError else Inr (data_gas_spec s + 68))"
proof -
  from assms have "odd (length s - 2)"
    by simp
  from data_gas_from_odd [OF this, of 0] show ?thesis
    by (simp add: data_gas_def data_gas_spec_def zero_pairs_def nonzero_pairs_def)
qed

text \<open>
  Claim C10, as amended. On a string of even length \<^verbatim>\<open>data_gas\<close> reads no index out of
  range and returns 4 for each pair \<^verbatim>\<open>00\<close> after the two-character prefix plus 68 for
  every other pair. On a string of odd length at least 3 the read of index \<open>x + 1\<close> past
  the end happens exactly when the last character is \<^verbatim>\<open>0\<close>, and \<^verbatim>\<open>IndexError\<close> is
  raised; with any other last character the short-circuit \<^verbatim>\<open>and\<close> skips that read, the
  function returns, and the dangling digit is charged 68.
\<close>

theorem data_gas_even_total_odd_raises_on_trailing_zero:
  "(even (length s) \<longrightarrow>
      data_gas s = Inr (4 * int (zero_pairs s) + 68 * int (nonzero_pairs s))) \<and>
   (odd (length s) \<and> 3 \<le> length s \<longrightarrow>
      (data_gas s = Inl IndexError \<longleftrightarrow> last s = CHR ''0'') \<and>
      (last s \<noteq> CHR ''0'' \<longrightarrow>
         data_gas s = Inr (4 * int (zero_pairs s) + 68 * int (nonzero_pairs s) + 68)))"
  using data_gas_even [of s] data_gas_odd [of s]
  by (simp add: data_gas_spec_def)

theorem data_gas_even_total_odd_raises_on_trailing_zero_witness:
  "even (length ''0x00ff'') \<and> data_gas ''0x00ff'' = Inr 72 \<and>
   odd (length ''0x000'') \<and> 3 \<le> length ''0x000'' \<and> last ''0x000'' = CHR ''0'' \<and>
   data_gas ''0x000'' = Inl IndexError \<and>
   odd (length ''0x00f'') \<and> 3 \<le> length ''0x00f'' \<and> last ''0x00f'' \<noteq> CHR ''0'' \<and>
   data_gas ''0x00f'' = Inr 72"
  using data_gas_even_total_odd_raises_on_trailing_zero [of "''0x00ff''"]
    data_gas_even_total_odd_raises_on_trailing_zero [of "''0x000''"]
    data_gas_even_total_odd_raises_on_trailing_zero [of "''0x00f''"]
  by (simp add: zero_pairs_def nonzero_pairs_def)

text \<open>
  Claim C10 as stated fails: \<^verbatim>\<open>'0xf'\<close> has odd length 3, and \<^verbatim>\<open>data_gas\<close> returns 68 on
  it without reading out of range.
\<close>

theorem data_gas_odd_length_counterexample:
  "odd (length ''0xf'') \<and> 3 \<le> length ''0xf'' \<and> data_gas ''0xf'' = Inr 68"
  by (simp add: data_gas_def data_gas_from.simps Z_GAS_def NZ_GAS_def)

lemma intrinsic_gas_loop_sum:
  "\<forall>c \<in> set cls. to c \<noteq> Some [] \<and> even (length (data c)) \<Longrightarrow>
   intrinsic_gas_loop cls acc =
     Inr (acc + (\<Sum>c\<leftarrow>cls. (if to c \<noteq> None then 16000 else 48000) + data_gas_spec (data c)))"
proof (induction cls arbitrary: acc)
  case Nil
  then show ?case by simp
next
  case (Cons c cls)
  have t: "truthy_str (to c) \<longleftrightarrow> to c \<noteq> None"
    using Cons.prems by (cases "to c") (auto simp: truthy_str_def)
  have g: "data_gas (data c) = Inr (data_gas_spec (data c))"
    using Cons.prems by (simp add: data_gas_even)
  have "\<forall>c \<in> set cls. to c \<noteq> Some [] \<and> even (length (data c))"
    using Cons.prems by simp
  from Cons.IH [OF this] show ?case
    by (simp add: t g CLAUSE_GAS_def CLAUSE_CONTRACT_CREATION_def)
qed

text \<open>
  Claim C2. \<^verbatim>\<open>intrinsic_gas\<close> of the empty clause list is 21000. Of a non-empty list of
  clauses whose \<^verbatim>\<open>to\<close> is absent or a non-empty address string and whose \<^verbatim>\<open>data\<close> has
  even length, it is 5000 plus, per clause, 16000 when \<^verbatim>\<open>to\<close> is present and 48000 when
  it is absent, plus 4 for each pair \<^verbatim>\<open>00\<close> of the data and 68 for every other pair. One
  clause with \<^verbatim>\<open>to\<close> present and data \<^verbatim>\<open>0x00ff\<close> gives 21072.
\<close>

theorem intrinsic_gas_formula:
  "intrinsic_gas [] = Inr 21000 \<and>
   (cls \<noteq> [] \<and> (\<forall>c \<in> set cls. to c \<noteq> Some [] \<and> even (length (data c))) \<longrightarrow>
      intrinsic_gas cls =
        Inr (5000 + (\<Sum>c\<leftarrow>cls. (if to c \<noteq> None then 16000 else 48000)
                              + (4 * int (zero_pairs (data c)) + 68 * int (nonzero_pairs (data c)))))) \<and>
   (a \<noteq> [] \<longrightarrow>
      intrinsic_gas [\<lparr>to = Some a, value = v, data = ''0x00ff''\<rparr>] = Inr 21072)"
proof (intro conjI impI)
  show "intrinsic_gas [] = Inr 21000"
    by (simp add: intrinsic_gas_def TX_GAS_def CLAUSE_GAS_def)
next
  assume "cls \<noteq> [] \<and> (\<forall>c \<in> set cls. to c \<noteq> Some [] \<and> even (length (data c)))"
  then show "intrinsic_gas cls =
        Inr (5000 + (\<Sum>c\<leftarrow>cls. (if to c \<noteq> None then 16000 else 48000)
                              + (4 * int (zero_pairs (data c)) + 68 * int (nonzero_pairs (data c)))))"
    using intrinsic_gas_loop_sum [of cls "0 + TX_GAS"]
    by (simp add: intrinsic_gas_def TX_GAS_def data_gas_spec_def)
next
  assume "a \<noteq> []"
  then have "\<forall>c \<in> set [\<lparr>to = Some a, value = v, data = ''0x00ff''\<rparr>].
      to c \<noteq> Some [] \<and> even (length (data c))"
    by simp
  from intrinsic_gas_loop_sum [OF this, of "0 + TX_GAS"]
  show "intrinsic_gas [\<lparr>to = Some a, value = v, data = ''0x00ff''\<rparr>] = Inr 21072"
    by (simp add: intrinsic_gas_def TX_GAS_def data_gas_spec_def zero_pairs_def
        nonzero_pairs_def)
qed

theorem intrinsic_gas_formula_witness:
  "intrinsic_gas [] = Inr 21000 \<and>
   intrinsic_gas
     [\<lparr>to = Some ''0x7567d83b7b8d80addcb281a71d54fc7b3364ffed'', value = IntV 10000,
       data = ''0x000000606060''\<rparr>,
      \<lparr>to = None, value = IntV 0, data = ''0x''\<rparr>] = Inr 69216 \<and>
   intrinsic_gas
     [\<lparr>to = Some ''0x7567d83b7b8d80addcb281a71d54fc7b3364ffed'', value = IntV 0,
       data = ''0x00ff''\<rparr>] = Inr 21072"
  using intrinsic_gas_formula
    [of "[\<lparr>to = Some ''0x7567d83b7b8d80addcb281a71d54fc7b3364ffed'', value = IntV 10000,
           data = ''0x000000606060''\<rparr>,
          \<lparr>to = None, value = IntV 0, data = ''0x''\<rparr>]"
        "''0x7567d83b7b8d80addcb281a71d54fc7b3364ffed''" "IntV 0"]
  by (simp add: zero_pairs_def nonzero_pairs_def)

section \<open>Delegation flag\<close>

text \<open>
  Claim C5. \<^verbatim>\<open>is_delegated\<close> is true exactly when the Body has a Reserved, its
  \<^verbatim>\<open>features\<close> is present and non-zero, and \<^verbatim>\<open>features & 1 == 1\<close>. So \<^verbatim>\<open>features\<close> 1 and
  3 give true, 2 gives false, and no Reserved, or \<^verbatim>\<open>features\<close> absent or zero, gives false.
\<close>

theorem is_delegated_iff:
  "(is_delegated tx \<longleftrightarrow>
      (\<exists>rsv f. reserved (body tx) = Some rsv \<and> features rsv = Some f \<and> f \<noteq> 0 \<and> f AND 1 = 1)) \<and>
   is_delegated \<lparr>body = b\<lparr>reserved := Some \<lparr>features = Some 1, unused = u\<rparr>\<rparr>, signature = sg\<rparr> \<and>
   \<not> is_delegated \<lparr>body = b\<lparr>reserved := Some \<lparr>features = Some 2, unused = u\<rparr>\<rparr>, signature = sg\<rparr> \<and>
   is_delegated \<lparr>body = b\<lparr>reserved := Some \<lparr>features = Some 3, unused = u\<rparr>\<rparr>, signature = sg\<rparr> \<and>
   \<not> is_delegated \<lparr>body = b\<lparr>reserved := None\<rparr>, signature = sg\<rparr> \<and>
   \<not> is_delegated \<lparr>body = b\<lparr>reserved := Some \<lparr>features = None, unused = u\<rparr>\<rparr>, signature = sg\<rparr> \<and>
   \<not> is_delegated \<lparr>body = b\<lparr>reserved := Some \<lparr>features = Some 0, unused = u\<rparr>\<rparr>, signature = sg\<rparr>"
  by (auto simp: is_delegated_def Body_to_dict_def truthy_dict_def truthy_int_def
      DELEGATED_MASK_def Let_def split: option.splits)

section \<open>Reserved-field canonicalizer: properties\<close>

lemma strip_trailing_empty_snoc:
  "strip_trailing_empty (ys @ [y]) = (if y = [] then strip_trailing_empty ys else ys @ [y])"
  by (simp add: strip_trailing_empty_def)

lemma map_nth_upt_take:
  "k \<le> length xs \<Longrightarrow> map ((!) xs) [0 ..< k] = take k xs"
  by (simp add: list_eq_iff_nth_eq)

lemma right_most_none_empty_strip:
  "n \<le> length xs \<Longrightarrow>
   (case right_most_none_empty (map length xs) n of
      None \<Rightarrow> []
    | Some i \<Rightarrow> map ((!) xs) [0 ..< i + 1]) = strip_trailing_empty (take n xs)"
proof (induction n)
  case 0
  then show ?case by (simp add: strip_trailing_empty_def)
next
  case (Suc n)
  then have lt: "n < length xs" and le: "n \<le> length xs"
    by simp_all
  have tk: "take (Suc n) xs = take n xs @ [xs ! n]"
    using lt by (simp add: take_Suc_conv_app_nth)
  show ?case
  proof (cases "xs ! n = []")
    case True
    then show ?thesis
      using Suc.IH [OF le] lt by (simp add: tk strip_trailing_empty_snoc)
  next
    case False
    then show ?thesis
      using lt map_nth_upt_take [of "Suc n" xs]
      by (simp add: tk strip_trailing_empty_snoc take_Suc_conv_app_nth)
  qed
qed

lemma encode_reserved_eq:
  "encode_reserved E tx =
     (case FeaturesKind_serialize E (reserved_features (body tx)) of
        None \<Rightarrow> Inl SerializationError
      | Some fb \<Rightarrow> Inr (strip_trailing_empty ([fb] @ reserved_unused (body tx))))"
proof -
  have a: "(case right_most_none_empty (map length xs) (length (map length xs)) of
              None \<Rightarrow> Inr []
            | Some i \<Rightarrow> Inr (map ((!) xs) [0 ..< i + 1])) =
           (Inr (strip_trailing_empty xs) :: error + bytes list)" for xs
    using right_most_none_empty_strip [of "length xs" xs]
    by (simp split: option.splits)
  show ?thesis
    unfolding encode_reserved_def Let_def a
    by (auto simp: Body_to_dict_def truthy_dict_def truthy_int_def truthy_list_def
        or_zero_def or_empty_def reserved_features_def reserved_unused_def
        split: option.splits)
qed

lemma strip_trailing_empty_all_empty:
  "\<forall>x \<in> set xs. x = [] \<Longrightarrow> strip_trailing_empty xs = []"
  by (simp add: strip_trailing_empty_def dropWhile_eq_Nil_conv)

lemma decode_empty_reserved:
  assumes "decode_dict E raw u = Inr (d, sg)" and "k_reserved d = []"
  shows "\<exists>tx'. decode E raw u = Inr tx' \<and> reserved (body tx') = None"
  using assms
  by (simp add: decode_def decode_reserved_def update_reserved_def truthy_dict_def Let_def)

text \<open>
  Claim C3. The list that \<^verbatim>\<open>_encode_reserved\<close> returns is the candidate list, the encoded
  \<^verbatim>\<open>features\<close> (0 by default) followed by \<^verbatim>\<open>unused\<close> (empty by default), truncated right
  after its right-most element of non-zero length; when the numeric kind rejects the
  features, the encoding raises. When every element of the candidate list is empty the
  result is the empty list; with an encoding of 0 of length zero that is so for
  \<^verbatim>\<open>Reserved(features=0, unused=[])\<close> and for a Body with no Reserved, and \<^verbatim>\<open>encode\<close> then
  hands the codec a dict with the empty list under \<^verbatim>\<open>'reserved'\<close>. Decoding wire bytes
  whose reserved list is empty gives a Body with no Reserved.
\<close>

theorem encode_reserved_canonical:
  "encode_reserved E tx =
     (case FeaturesKind_serialize E (reserved_features (body tx)) of
        None \<Rightarrow> Inl SerializationError
      | Some fb \<Rightarrow> Inr (strip_trailing_empty ([fb] @ reserved_unused (body tx)))) \<and>
   (FeaturesKind_serialize E (reserved_features (body tx)) = Some [] \<and>
    (\<forall>x \<in> set (reserved_unused (body tx)). length x = 0) \<longrightarrow>
      encode_reserved E tx = Inr []) \<and>
   (FeaturesKind_serialize E 0 = Some [] \<and>
    (reserved (body tx) = None \<or>
     reserved (body tx) = Some \<lparr>features = Some 0, unused = Some []\<rparr>) \<longrightarrow>
      encode_reserved E tx = Inr [] \<and>
      (signature tx = None \<longrightarrow>
         encode E tx =
           (case UnsignedTx_encode E (update_reserved (Body_to_dict (body tx)) []) of
              None \<Rightarrow> Inl EncodeError
            | Some w \<Rightarrow> Inr w)) \<and>
      (\<forall>sg. signature tx = Some sg \<and> sg \<noteq> [] \<longrightarrow>
         encode E tx =
           (case SignedTx_encode E
                   (tx_dict.extend (update_reserved (Body_to_dict (body tx)) [])
                      \<lparr>k_signature = Some sg\<rparr>) of
              None \<Rightarrow> Inl EncodeError
            | Some w \<Rightarrow> Inr w))) \<and>
   (decode_dict E raw u = Inr (d, s) \<and> k_reserved d = [] \<longrightarrow>
      (\<exists>tx'. decode E raw u = Inr tx' \<and> reserved (body tx') = None))"
proof (intro conjI impI allI)
  show "encode_reserved E tx =
     (case FeaturesKind_serialize E (reserved_features (body tx)) of
        None \<Rightarrow> Inl SerializationError
      | Some fb \<Rightarrow> Inr (strip_trailing_empty ([fb] @ reserved_unused (body tx))))"
    by (rule encode_reserved_eq)
next
  assume "FeaturesKind_serialize E (reserved_features (body tx)) = Some [] \<and>
    (\<forall>x \<in> set (reserved_unused (body tx)). length x = 0)"
  then show "encode_reserved E tx = Inr []"
    by (simp add: encode_reserved_eq strip_trailing_empty_all_empty)
next
  assume a: "FeaturesKind_serialize E 0 = Some [] \<and>
    (reserved (body tx) = None \<or>
     reserved (body tx) = Some \<lparr>features = Some 0, unused = Some []\<rparr>)"
  then show e: "encode_reserved E tx = Inr []"
    by (auto simp: encode_reserved_eq reserved_features_def reserved_unused_def
        strip_trailing_empty_def)
  {
    assume "signature tx = None"
    then show "encode E tx =
           (case UnsignedTx_encode E (update_reserved (Body_to_dict (body tx)) []) of
              None \<Rightarrow> Inl EncodeError
            | Some w \<Rightarrow> Inr w)"
      using e by (simp add: encode_def truthy_list_def)
  }
  {
    fix sg
    assume "signature tx = Some sg \<and> sg \<noteq> []"
    then show "encode E tx =
           (case SignedTx_encode E
                   (tx_dict.extend (update_reserved (Body_to_dict (body tx)) [])
                      \<lparr>k_signature = Some sg\<rparr>) of
              None \<Rightarrow> Inl EncodeError
            | Some w \<Rightarrow> Inr w)"
      using e by (simp add: encode_def truthy_list_def)
  }
next
  assume "decode_dict E raw u = Inr (d, s) \<and> k_reserved d = []"
  then show "\<exists>tx'. decode E raw u = Inr tx' \<and> reserved (body tx') = None"
    using decode_empty_reserved by blast
qed

theorem encode_reserved_canonical_witness:
  "FeaturesKind_serialize demo_env 0 = Some [] \<and>
   encode_reserved demo_env (demo_tx (Some \<lparr>features = Some 0, unused = Some []\<rparr>) None) = Inr [] \<and>
   encode demo_env (demo_tx (Some \<lparr>features = Some 0, unused = Some []\<rparr>) None) = Inr [2] \<and>
   encode demo_env (demo_tx (Some \<lparr>features = Some 0, unused = Some []\<rparr>) (Some (replicate 65 17)))
     = Inr [11] \<and>
   decode_dict demo_env [2] True = Inr (demo_dict [demo_clause] [], None) \<and>
   (\<exists>tx'. decode demo_env [2] True = Inr tx' \<and> reserved (body tx') = None) \<and>
   encode_reserved demo_env (demo_tx (Some \<lparr>features = Some 5, unused = Some [[], []]\<rparr>) None)
     = Inr [[5]]"
proof -
  let ?r0 = "Some \<lparr>features = Some 0, unused = Some []\<rparr>"
  let ?r5 = "Some \<lparr>features = Some 5, unused = Some [[], []]\<rparr>"
  have h1: "FeaturesKind_serialize demo_env 0 = Some []"
    by code_simp
  have h2: "reserved (body (demo_tx ?r0 sg)) = ?r0" for sg
    by (simp add: demo_tx_def demo_body_def)
  have h3: "decode_dict demo_env [2] True = Inr (demo_dict [demo_clause] [], None)"
    by code_simp
  have h4: "k_reserved (demo_dict [demo_clause] []) = []"
    by (simp add: demo_dict_def)
  have h5: "signature (demo_tx ?r0 sg) = sg" for sg
    by (simp add: demo_tx_def)
  have e1: "UnsignedTx_encode demo_env
      (update_reserved (Body_to_dict (body (demo_tx ?r0 None))) []) = Some [2]"
    by code_simp
  have e2: "SignedTx_encode demo_env
      (tx_dict.extend (update_reserved (Body_to_dict (body (demo_tx ?r0 (Some (replicate 65 17))))) [])
         \<lparr>k_signature = Some (replicate 65 17)\<rparr>) = Some [11]"
    by code_simp
  have s5: "FeaturesKind_serialize demo_env (reserved_features (body (demo_tx ?r5 None))) = Some [5]"
    by code_simp
  have u5: "reserved_unused (body (demo_tx ?r5 None)) = [[], []]"
    by code_simp
  note a = encode_reserved_canonical
    [of demo_env "demo_tx ?r0 None" "[2]" True "demo_dict [demo_clause] []" None]
  note b = encode_reserved_canonical
    [of demo_env "demo_tx ?r0 (Some (replicate 65 17))" "[2]" True "demo_dict [demo_clause] []" None]
  note c = encode_reserved_canonical
    [of demo_env "demo_tx ?r5 None" "[2]" True "demo_dict [demo_clause] []" None]
  note a3 = a [THEN conjunct2, THEN conjunct2, THEN conjunct1]
  note a4 = a [THEN conjunct2, THEN conjunct2, THEN conjunct2]
  note b3 = b [THEN conjunct2, THEN conjunct2, THEN conjunct1]
  have "encode_reserved demo_env (demo_tx ?r0 None) = Inr []"
    using a3 h1 h2 by simp
  moreover have "encode demo_env (demo_tx ?r0 None) = Inr [2]"
    using a3 h1 h2 h5 e1 by simp
  moreover have "encode demo_env (demo_tx ?r0 (Some (replicate 65 17))) = Inr [11]"
    using b3 h1 h2 h5 [of "Some (replicate 65 17)"] e2 by simp
  moreover have "\<exists>tx'. decode demo_env [2] True = Inr tx' \<and> reserved (body tx') = None"
    using a4 h3 h4 by simp
  moreover have "encode_reserved demo_env (demo_tx ?r5 None) = Inr [[5]]"
    using c [THEN conjunct1] s5 u5 by (simp add: strip_trailing_empty_def)
  ultimately show ?thesis
    using h1 h3 by simp
qed

section \<open>Decoding untrimmed reserved lists\<close>

lemma decode_reserved_untrimmed_iff:
  "decode_reserved E r = Inl UntrimmedReservedField \<longleftrightarrow> r \<noteq> [] \<and> length (last r) = 0"
  by (simp add: decode_reserved_def split: option.splits)

lemma decode_reserved_Inr:
  "decode_reserved E r = Inr rd \<longleftrightarrow>
     (r = [] \<and> rd = None) \<or>
     (r \<noteq> [] \<and> last r \<noteq> [] \<and>
      (\<exists>ft. FeaturesKind_deserialize E (r ! 0) = Some ft \<and>
            rd = Some \<lparr>k_features = Some ft,
                       k_unused = (if length r > 1 then Some (drop 1 r) else None)\<rparr>))"
  by (auto simp: decode_reserved_def split: option.splits)

lemma decode_dict_unsigned:
  "decode_dict E raw True =
     (case UnsignedTx_decode E raw of None \<Rightarrow> Inl DecodeError | Some d \<Rightarrow> Inr (d, None))"
  by (simp add: decode_dict_def)

lemma decode_dict_signed:
  "decode_dict E raw False =
     (case SignedTx_decode E raw of
        None \<Rightarrow> Inl DecodeError
      | Some d \<Rightarrow>
          (case k_signature d of
             None \<Rightarrow> Inl KeyError
           | Some sg \<Rightarrow> Inr (tx_dict.truncate d, Some sg)))"
  by (simp add: decode_dict_def)

lemma decode_dict_not_untrimmed:
  "decode_dict E raw u \<noteq> Inl UntrimmedReservedField"
  by (simp add: decode_dict_def split: option.splits)

lemma k_reserved_truncate:
  "k_reserved (tx_dict.truncate d) = k_reserved d"
  by (simp add: tx_dict.defs)

lemma decode_Inr:
  assumes "decode_dict E raw u = Inr (d, sg)" and "decode_reserved E (k_reserved d) = Inr rd"
  shows "decode E raw u =
     Inr \<lparr>body =
            \<lparr>chain_tag = k_chainTag d,
             block_ref = k_blockRef d,
             expiration = k_expiration d,
             clauses = map (\<lambda>each. \<lparr>to = k_to each, value = k_value each,
                                     data = k_data each\<rparr>) (k_clauses d),
             gas_price_coef = k_gasPriceCoef d,
             gas = k_gas d,
             depends_on = k_dependsOn d,
             nonce = k_nonce d,
             reserved =
               (case rd of
                  None \<Rightarrow> None
                | Some rv \<Rightarrow> Some \<lparr>features = k_features rv, unused = k_unused rv\<rparr>)\<rparr>,
          signature = (if truthy_list sg then sg else None)\<rparr>"
proof -
  from assms(2) consider "rd = None"
    | ft uu where "rd = Some \<lparr>k_features = Some ft, k_unused = uu\<rparr>"
    unfolding decode_reserved_Inr by blast
  then show ?thesis
  proof cases
    case 1
    then show ?thesis
      using assms by (simp add: decode_def update_reserved_def truthy_dict_def)
  next
    case 2
    then show ?thesis
      using assms by (simp add: decode_def update_reserved_def truthy_dict_def)
  qed
qed

lemma decode_Inl:
  assumes "decode_dict E raw u = Inr (d, sg)" and "decode_reserved E (k_reserved d) = Inl e"
  shows "decode E raw u = Inl e"
  using assms by (simp add: decode_def)

lemma decode_dict_Inl:
  assumes "decode_dict E raw u = Inl e"
  shows "decode E raw u = Inl e"
  using assms by (simp add: decode_def)

lemma decode_untrimmed_dict:
  "decode E raw u = Inl UntrimmedReservedField \<longleftrightarrow>
     (\<exists>d sg. decode_dict E raw u = Inr (d, sg) \<and>
             k_reserved d \<noteq> [] \<and> length (last (k_reserved d)) = 0)"
proof (cases "decode_dict E raw u")
  case (Inl e)
  then show ?thesis
    using decode_dict_Inl [OF Inl] decode_dict_not_untrimmed [of E raw u] by auto
next
  case (Inr p)
  obtain d sg where p: "p = (d, sg)"
    by (cases p)
  show ?thesis
  proof (cases "decode_reserved E (k_reserved d)")
    case (Inl e)
    then show ?thesis
      using decode_Inl [OF Inr [unfolded p] Inl] Inr p
        decode_reserved_untrimmed_iff [of E "k_reserved d"]
      by auto
  next
    case r: (Inr rd)
    then show ?thesis
      using decode_Inr [OF Inr [unfolded p] r] Inr p
        decode_reserved_untrimmed_iff [of E "k_reserved d"]
      by auto
  qed
qed

text \<open>
  Claim C4, as amended. \<^verbatim>\<open>decode\<close> fails with the untrimmed-reserved-field error exactly
  when the codec of the chosen schema decodes the wire bytes to a dict that has, for the
  signed schema, its \<^verbatim>\<open>'signature'\<close> entry, and whose reserved list is non-empty and ends
  with an element of length zero. A signed decode whose dict has no \<^verbatim>\<open>'signature'\<close> raises
  \<^verbatim>\<open>KeyError\<close> before the reserved list is looked at. Whenever the decoded reserved list
  is non-empty and ends with an element of length zero, \<^verbatim>\<open>decode\<close> returns no Transaction.
\<close>

theorem decode_untrimmed_iff:
  "(decode E raw True = Inl UntrimmedReservedField \<longleftrightarrow>
      (\<exists>d. UnsignedTx_decode E raw = Some d \<and>
           k_reserved d \<noteq> [] \<and> length (last (k_reserved d)) = 0)) \<and>
   (decode E raw False = Inl UntrimmedReservedField \<longleftrightarrow>
      (\<exists>d sg. SignedTx_decode E raw = Some d \<and> k_signature d = Some sg \<and>
           k_reserved d \<noteq> [] \<and> length (last (k_reserved d)) = 0)) \<and>
   (SignedTx_decode E raw = Some ds \<and> k_signature ds = None \<longrightarrow>
      decode E raw False = Inl KeyError) \<and>
   (UnsignedTx_decode E raw = Some du \<and>
    k_reserved du \<noteq> [] \<and> length (last (k_reserved du)) = 0 \<longrightarrow>
      (\<forall>tx. decode E raw True \<noteq> Inr tx)) \<and>
   (SignedTx_decode E raw = Some ds \<and>
    k_reserved ds \<noteq> [] \<and> length (last (k_reserved ds)) = 0 \<longrightarrow>
      (\<forall>tx. decode E raw False \<noteq> Inr tx))"
proof -
  have u: "decode E raw True = Inl UntrimmedReservedField \<longleftrightarrow>
      (\<exists>d. UnsignedTx_decode E raw = Some d \<and>
           k_reserved d \<noteq> [] \<and> length (last (k_reserved d)) = 0)"
    unfolding decode_untrimmed_dict decode_dict_unsigned
    by (cases "UnsignedTx_decode E raw") auto
  have s: "decode E raw False = Inl UntrimmedReservedField \<longleftrightarrow>
      (\<exists>d sg. SignedTx_decode E raw = Some d \<and> k_signature d = Some sg \<and>
           k_reserved d \<noteq> [] \<and> length (last (k_reserved d)) = 0)"
    unfolding decode_untrimmed_dict decode_dict_signed
    by (cases "SignedTx_decode E raw")
      (auto simp: k_reserved_truncate split: option.splits)
  have k: "decode E raw False = Inl KeyError"
    if "SignedTx_decode E raw = Some ds \<and> k_signature ds = None"
  proof -
    from that have "decode_dict E raw False = Inl KeyError"
      by (simp add: decode_dict_signed)
    then show ?thesis
      by (rule decode_dict_Inl)
  qed
  have nu: "\<forall>tx. decode E raw True \<noteq> Inr tx"
    if "UnsignedTx_decode E raw = Some du \<and>
      k_reserved du \<noteq> [] \<and> length (last (k_reserved du)) = 0"
  proof -
    from that u have "decode E raw True = Inl UntrimmedReservedField"
      by blast
    then show ?thesis
      by simp
  qed
  have ns: "\<forall>tx. decode E raw False \<noteq> Inr tx"
    if a: "SignedTx_decode E raw = Some ds \<and>
      k_reserved ds \<noteq> [] \<and> length (last (k_reserved ds)) = 0"
  proof (cases "k_signature ds")
    case None
    with a k have "decode E raw False = Inl KeyError"
      by blast
    then show ?thesis
      by simp
  next
    case (Some sg)
    with a s have "decode E raw False = Inl UntrimmedReservedField"
      by blast
    then show ?thesis
      by simp
  qed
  from u s k nu ns show ?thesis
    by blast
qed

theorem decode_untrimmed_iff_witness:
  "UnsignedTx_decode demo_env [5] = Some (demo_dict [demo_clause] [[1], []]) \<and>
   decode demo_env [5] True = Inl UntrimmedReservedField \<and>
   (\<forall>tx. decode demo_env [5] True \<noteq> Inr tx) \<and>
   decode demo_env [13] False = Inl UntrimmedReservedField \<and>
   (\<forall>tx. decode demo_env [13] False \<noteq> Inr tx) \<and>
   decode demo_env [3] True \<noteq> Inl UntrimmedReservedField \<and>
   decode demo_env [5] False = Inl KeyError \<and>
   (\<forall>tx. decode demo_env [5] False \<noteq> Inr tx)"
proof -
  let ?sg = "replicate 65 17 @ replicate 65 (34 :: 8 word)"
  let ?d13 = "tx_dict.extend (demo_dict [demo_clause] [[1], []]) \<lparr>k_signature = Some ?sg\<rparr>"
  let ?d5 = "tx_dict.extend (demo_dict [demo_clause] [[1], []])
      \<lparr>k_signature = None :: bytes option\<rparr>"
  have h1: "UnsignedTx_decode demo_env [5] = Some (demo_dict [demo_clause] [[1], []])"
    by code_simp
  have h2: "SignedTx_decode demo_env [13] = Some ?d13"
    by code_simp
  have h3: "UnsignedTx_decode demo_env [3] = Some (demo_dict [demo_clause] [[1]])"
    by code_simp
  have h4: "SignedTx_decode demo_env [5] = Some ?d5"
    by code_simp
  have k: "k_reserved (demo_dict cls r) = r" for cls r
    by (simp add: demo_dict_def)
  have k': "k_reserved (tx_dict.extend (demo_dict cls r) x) = r"
    for cls r and x :: "\<lparr>k_signature :: bytes option\<rparr>"
    by (simp add: demo_dict_def tx_dict.defs)
  have g: "k_signature ?d13 = Some ?sg" "k_signature ?d5 = None"
    by (simp_all add: tx_dict.defs)
  note a = decode_untrimmed_iff [where E = demo_env and raw = "[5]"
      and du = "demo_dict [demo_clause] [[1], []]" and ds = ?d5]
  note b = decode_untrimmed_iff [where E = demo_env and raw = "[13]" and ds = ?d13]
  note c = decode_untrimmed_iff [where E = demo_env and raw = "[3]"]
  have "decode demo_env [5] True = Inl UntrimmedReservedField"
    using a [THEN conjunct1] h1 k by simp
  moreover have "\<forall>tx. decode demo_env [5] True \<noteq> Inr tx"
    using a [THEN conjunct2, THEN conjunct2, THEN conjunct2, THEN conjunct1] h1 k by simp
  moreover have "decode demo_env [13] False = Inl UntrimmedReservedField"
    using b [THEN conjunct2, THEN conjunct1] h2 k' g(1) by simp
  moreover have "\<forall>tx. decode demo_env [13] False \<noteq> Inr tx"
    using b [THEN conjunct2, THEN conjunct2, THEN conjunct2, THEN conjunct2] h2 k' by simp
  moreover have "decode demo_env [3] True \<noteq> Inl UntrimmedReservedField"
    using c [THEN conjunct1] h3 k by simp
  moreover have "decode demo_env [5] False = Inl KeyError"
    using a [THEN conjunct2, THEN conjunct2, THEN conjunct1] h4 g(2) by simp
  moreover have "\<forall>tx. decode demo_env [5] False \<noteq> Inr tx"
    using a [THEN conjunct2, THEN conjunct2, THEN conjunct2, THEN conjunct2] h4 k' by simp
  ultimately show ?thesis
    using h1 by simp
qed

text \<open>
  Claim C4 as stated fails: the signed schema reads the wire \<open>[5]\<close> to a dict whose
  reserved list is non-empty and ends with an element of length zero, and which has no
  \<^verbatim>\<open>'signature'\<close>; \<^verbatim>\<open>decode\<close> raises \<^verbatim>\<open>KeyError\<close> at \<^verbatim>\<open>decoded['signature']\<close>, not the
  untrimmed-reserved-field error.
\<close>

theorem decode_untrimmed_missing_signature_counterexample:
  "SignedTx_decode demo_env [5] =
     Some (tx_dict.extend (demo_dict [demo_clause] [[1], []]) \<lparr>k_signature = None\<rparr>) \<and>
   k_reserved (tx_dict.extend (demo_dict [demo_clause] [[1], []])
                 \<lparr>k_signature = None :: bytes option\<rparr>) = [[1], []] \<and>
   length (last [[1], [] :: bytes]) = 0 \<and>
   decode demo_env [5] False = Inl KeyError \<and>
   decode demo_env [5] False \<noteq> Inl UntrimmedReservedField"
  by code_simp

section \<open>Signing hash: the empty delegate string\<close>

lemma get_signing_hash_None:
  "get_signing_hash E tx None =
     (case encode_reserved E tx of
        Inl e \<Rightarrow> Inl e
      | Inr reserved_list \<Rightarrow>
          (case UnsignedTx_encode E (update_reserved (Body_to_dict (body tx)) reserved_list) of
             None \<Rightarrow> Inl EncodeError
           | Some buff \<Rightarrow> Inr (blake2b256 E [buff])))"
  by (simp add: get_signing_hash_def truthy_str_def Let_def split: sum.splits option.splits)

lemma get_signing_hash_empty:
  "get_signing_hash E tx (Some []) = get_signing_hash E tx None"
  by (simp add: get_signing_hash_def truthy_str_def Let_def split: sum.splits option.splits)

lemma encode_reserved_is_address:
  "encode_reserved (E\<lparr>is_address := chk\<rparr>) tx = encode_reserved E tx"
  by (simp add: encode_reserved_eq)

lemma encode_reserved_not_invalid:
  "encode_reserved E tx \<noteq> Inl InvalidDelegateAddress"
  by (simp add: encode_reserved_eq split: option.splits)

text \<open>
  Claim C9. With \<^verbatim>\<open>delegate_for\<close> the empty string, \<^verbatim>\<open>get_signing_hash\<close> does what it
  does with no delegate: the result does not depend on the address validator, it is never
  the invalid-delegate-address error, and it is the plain signing hash.
\<close>

theorem get_signing_hash_empty_delegate:
  "get_signing_hash E tx (Some []) = get_signing_hash E tx None \<and>
   get_signing_hash (E\<lparr>is_address := chk\<rparr>) tx (Some []) = get_signing_hash E tx None \<and>
   get_signing_hash E tx (Some []) \<noteq> Inl InvalidDelegateAddress"
proof (intro conjI)
  show "get_signing_hash E tx (Some []) = get_signing_hash E tx None"
    by (simp add: get_signing_hash_empty)
  show "get_signing_hash (E\<lparr>is_address := chk\<rparr>) tx (Some []) = get_signing_hash E tx None"
    by (simp add: get_signing_hash_empty get_signing_hash_None
        encode_reserved_is_address cong: sum.case_cong option.case_cong)
  show "get_signing_hash E tx (Some []) \<noteq> Inl InvalidDelegateAddress"
    using encode_reserved_not_invalid [of E tx]
    by (auto simp: get_signing_hash_empty get_signing_hash_None
        split: sum.splits option.splits)
qed

section \<open>Hex strings\<close>

lemma hex_char_table:
  "\<forall>n \<in> set [0 ..< 16]. hex_digit (hex_char n) = Some n \<and> \<not> is_space (hex_char n) \<and>
     hex_char n \<in> set ''0123456789abcdef''"
  by code_simp

lemma hex_char_facts:
  assumes "n < 16"
  shows "hex_digit (hex_char n) = Some n" and "\<not> is_space (hex_char n)"
    and "hex_char n \<in> set ''0123456789abcdef''"
  using assms hex_char_table by auto

lemma byte_nibbles:
  "of_nat (16 * (unat b div 16) + unat b mod 16) = (b :: 8 word)"
  by (simp add: mult.commute)

lemma bytes_hex_Cons:
  "bytes_hex (b # bs) = hex_char (unat b div 16) # hex_char (unat b mod 16) # bytes_hex bs"
  by (simp add: bytes_hex_def)

lemma unat_byte_div16: "unat (b :: 8 word) div 16 < 16"
proof -
  have "unat b < 256"
    using unsigned_less [of b] by simp
  then show ?thesis by simp
qed

lemma bytes_fromhex_bytes_hex:
  "bytes_fromhex (bytes_hex a) = Some a"
proof (induction a)
  case Nil
  then show ?case by (simp add: bytes_hex_def)
next
  case (Cons b bs)
  have hi: "unat b div 16 < 16"
    by (rule unat_byte_div16)
  have lo: "unat b mod 16 < 16"
    by simp
  show ?case
    using Cons.IH hex_char_facts(1,2) [OF hi] hex_char_facts(1) [OF lo] byte_nibbles [of b]
    by (simp add: bytes_hex_Cons)
qed

lemma bytes_hex_lowercase:
  "set (bytes_hex bs) \<subseteq> set ''0123456789abcdef''"
proof (induction bs)
  case Nil
  then show ?case by (simp add: bytes_hex_def)
next
  case (Cons b bs)
  have hi: "unat b div 16 < 16"
    by (rule unat_byte_div16)
  have lo: "unat b mod 16 < 16"
    by simp
  show ?case
    using Cons.IH hex_char_facts(3) [OF hi] hex_char_facts(3) [OF lo]
    by (simp add: bytes_hex_Cons)
qed

lemma bytes_hex_length: "length (bytes_hex bs) = 2 * length bs"
  by (induction bs) (simp_all add: bytes_hex_def)

section \<open>Signing hash\<close>

lemma get_signing_hash_delegate:
  "dl \<noteq> [] \<Longrightarrow>
   get_signing_hash E tx (Some dl) =
     (case get_signing_hash E tx None of
        Inl e \<Rightarrow> Inl e
      | Inr h \<Rightarrow>
          if \<not> is_address E dl then Inl InvalidDelegateAddress
          else (case bytes_fromhex (drop 2 dl) of
                  None \<Rightarrow> Inl ValueError
                | Some a \<Rightarrow> Inr (blake2b256 E [h, a])))"
  by (simp add: get_signing_hash_def truthy_str_def Let_def split: sum.splits option.splits)

lemma get_signing_hash_body:
  assumes "body tx' = body tx"
  shows "get_signing_hash E tx' dl = get_signing_hash E tx dl"
  unfolding get_signing_hash_def encode_reserved_def assms
  by (rule refl)

lemma get_signing_hash_length:
  assumes "\<forall>bufs. length (blake2b256 E bufs) = 32" and "get_signing_hash E tx dl = Inr h"
  shows "length h = 32"
  using assms
  by (auto simp: get_signing_hash_def Let_def split: sum.splits option.splits if_splits)

text \<open>
  Claim C7, as amended. With no delegate \<^verbatim>\<open>get_signing_hash\<close> returns the hash of the
  unsigned-schema encoding of the body dict with the canonical reserved list (or raises
  what the canonicalizer or the codec raises); the result is a function of the current
  Body alone, and has 32 bytes when the hash primitive returns 32 bytes. With a non-empty
  \<^verbatim>\<open>delegate_for\<close> and an encodable body it raises the invalid-delegate-address error
  when the string is not an address, and otherwise returns the hash of the plain hash
  followed by the bytes \<^verbatim>\<open>bytes.fromhex(delegate_for[2:])\<close>.
\<close>

theorem get_signing_hash_spec:
  "get_signing_hash E tx None =
     (case encode_reserved E tx of
        Inl e \<Rightarrow> Inl e
      | Inr reserved_list \<Rightarrow>
          (case UnsignedTx_encode E (update_reserved (Body_to_dict (body tx)) reserved_list) of
             None \<Rightarrow> Inl EncodeError
           | Some buff \<Rightarrow> Inr (blake2b256 E [buff]))) \<and>
   (body tx' = body tx \<longrightarrow> get_signing_hash E tx' dg = get_signing_hash E tx dg) \<and>
   ((\<forall>bufs. length (blake2b256 E bufs) = 32) \<and> get_signing_hash E tx dg = Inr h \<longrightarrow>
      length h = 32) \<and>
   (dl \<noteq> [] \<longrightarrow>
      get_signing_hash E tx (Some dl) =
        (case get_signing_hash E tx None of
           Inl e \<Rightarrow> Inl e
         | Inr h0 \<Rightarrow>
             if \<not> is_address E dl then Inl InvalidDelegateAddress
             else (case bytes_fromhex (drop 2 dl) of
                     None \<Rightarrow> Inl ValueError
                   | Some a \<Rightarrow> Inr (blake2b256 E [h0, a]))))"
  using get_signing_hash_None [of E tx] get_signing_hash_body [of tx' tx E dg]
    get_signing_hash_length [of E tx dg h] get_signing_hash_delegate [of dl E tx]
  by blast

theorem get_signing_hash_spec_witness:
  "(\<forall>bufs. length (blake2b256 demo_env bufs) = 32) \<and>
   get_signing_hash demo_env (demo_tx None None) None = Inr (2 # replicate 31 0) \<and>
   get_signing_hash demo_env (demo_tx None (Some [1])) None = Inr (2 # replicate 31 0) \<and>
   \<not> is_address demo_env ''0x12'' \<and>
   get_signing_hash demo_env (demo_tx None None) (Some ''0x12'') = Inl InvalidDelegateAddress \<and>
   is_address demo_env ''0x1111111111111111111111111111111111111111'' \<and>
   get_signing_hash demo_env (demo_tx None None)
     (Some ''0x1111111111111111111111111111111111111111'')
     = Inr (blake2b256 demo_env [2 # replicate 31 0, replicate 20 17])"
proof -
  let ?tx = "demo_tx None None"
  let ?ad = "''0x1111111111111111111111111111111111111111''"
  have h0: "\<forall>bufs. length (blake2b256 demo_env bufs) = 32"
    by (auto simp: demo_env_def demo_blake2b256_def)
  have h1: "encode_reserved demo_env ?tx = Inr []"
    by code_simp
  have h2: "UnsignedTx_encode demo_env (update_reserved (Body_to_dict (body ?tx)) []) = Some [2]"
    by code_simp
  have h3: "blake2b256 demo_env [[2]] = 2 # replicate 31 0"
    by code_simp
  have h4: "body (demo_tx None (Some [1])) = body ?tx"
    by (simp add: demo_tx_def)
  have h5: "\<not> is_address demo_env ''0x12''"
    by code_simp
  have h6: "is_address demo_env ?ad"
    by code_simp
  have h7: "bytes_fromhex (drop 2 ?ad) = Some (replicate 20 17)"
    by code_simp
  note a = get_signing_hash_spec [of demo_env ?tx "demo_tx None (Some [1])" None
      "2 # replicate 31 0" "''0x12''"]
  note b = get_signing_hash_spec [of demo_env ?tx ?tx None "2 # replicate 31 0" ?ad]
  have p: "get_signing_hash demo_env ?tx None = Inr (2 # replicate 31 0)"
    using a [THEN conjunct1] h1 h2 h3 by simp
  have q: "get_signing_hash demo_env (demo_tx None (Some [1])) None = Inr (2 # replicate 31 0)"
    using a [THEN conjunct2, THEN conjunct1] h4 p by simp
  have r: "get_signing_hash demo_env ?tx (Some ''0x12'') = Inl InvalidDelegateAddress"
    using a [THEN conjunct2, THEN conjunct2, THEN conjunct2] p h5 by simp
  have t: "get_signing_hash demo_env ?tx (Some ?ad)
      = Inr (blake2b256 demo_env [2 # replicate 31 0, replicate 20 17])"
    using b [THEN conjunct2, THEN conjunct2, THEN conjunct2] p h6 h7 by simp
  show ?thesis
    using h0 p q r t h5 h6 by blast
qed

text \<open>
  Claim C7 as stated fails: the empty string is supplied as \<^verbatim>\<open>delegate_for\<close> and is not
  an address, yet nothing is raised and the plain signing hash comes back.
\<close>

theorem get_signing_hash_empty_delegate_counterexample:
  "\<not> is_address demo_env [] \<and>
   get_signing_hash demo_env (demo_tx None None) None = Inr (2 # replicate 31 0) \<and>
   get_signing_hash demo_env (demo_tx None None) (Some []) = Inr (2 # replicate 31 0)"
  by code_simp

section \<open>Origin, delegator and id: properties\<close>

lemma signature_valid_iff:
  "signature_valid tx \<longleftrightarrow>
     (\<exists>sg. signature tx = Some sg \<and> length sg = (if is_delegated tx then 130 else 65))"
  by (cases "signature tx")
    (auto simp: signature_valid_def get_signature_def truthy_list_def)

lemma except_None_not_Inl: "except_None r \<noteq> Inl e"
  by (simp add: except_None_def split: sum.splits)

lemma get_origin_not_Inl: "get_origin E tx \<noteq> Inl e"
  by (simp add: get_origin_def except_None_not_Inl)

lemma get_id_not_Inl: "get_id E tx \<noteq> Inl e"
  by (simp add: get_id_def except_None_not_Inl)

lemma get_delegator_not_Inl: "get_delegator E tx \<noteq> Inl e"
  using get_origin_not_Inl [of E tx]
  by (simp add: get_delegator_def except_None_not_Inl split: sum.splits)

lemma get_origin_try_eq:
  "signature tx = Some sg \<Longrightarrow>
   get_origin_try E tx =
     (case get_signing_hash E tx None of
        Inl e \<Rightarrow> Inl e
      | Inr h \<Rightarrow>
          (case recovered E h (take 65 sg) of
             None \<Rightarrow> Inl RecoveryFailure
           | Some a \<Rightarrow> Inr (''0x'' @ bytes_hex a)))"
  by (simp add: get_origin_try_def get_signature_def recovered_def
      split: sum.splits option.splits)

lemma get_id_try_eq:
  "signature tx = Some sg \<Longrightarrow>
   get_id_try E tx =
     (case get_signing_hash E tx None of
        Inl e \<Rightarrow> Inl e
      | Inr h \<Rightarrow>
          (case recovered E h (take 65 sg) of
             None \<Rightarrow> Inl RecoveryFailure
           | Some a \<Rightarrow> Inr (''0x'' @ bytes_hex (blake2b256 E [h, a]))))"
  by (simp add: get_id_try_def get_signature_def recovered_def
      split: sum.splits option.splits)

lemma get_delegator_try_eq:
  "signature tx = Some sg \<Longrightarrow>
   get_delegator_try E tx origin =
     (case get_signing_hash E tx origin of
        Inl e \<Rightarrow> Inl e
      | Inr h \<Rightarrow>
          (case recovered E h (drop 65 sg) of
             None \<Rightarrow> Inl RecoveryFailure
           | Some a \<Rightarrow> Inr (''0x'' @ bytes_hex a)))"
  by (simp add: get_delegator_try_def get_signature_def recovered_def
      split: sum.splits option.splits)

lemma get_origin_eq:
  assumes "signature_valid tx" and "signature tx = Some sg"
  shows "get_origin E tx =
     Inr (case get_signing_hash E tx None of
            Inl e \<Rightarrow> None
          | Inr h \<Rightarrow> map_option (\<lambda>a. ''0x'' @ bytes_hex a) (recovered E h (take 65 sg)))"
  using assms
  by (simp add: get_origin_def get_origin_try_eq except_None_def
      split: sum.splits option.splits)

lemma get_id_eq:
  assumes "signature_valid tx" and "signature tx = Some sg"
  shows "get_id E tx =
     Inr (case get_signing_hash E tx None of
            Inl e \<Rightarrow> None
          | Inr h \<Rightarrow>
              map_option (\<lambda>a. ''0x'' @ bytes_hex (blake2b256 E [h, a]))
                (recovered E h (take 65 sg)))"
  using assms
  by (simp add: get_id_def get_id_try_eq except_None_def
      split: sum.splits option.splits)

lemma get_origin_invalid: "\<not> signature_valid tx \<Longrightarrow> get_origin E tx = Inr None"
  by (simp add: get_origin_def)

lemma get_id_invalid: "\<not> signature_valid tx \<Longrightarrow> get_id E tx = Inr None"
  by (simp add: get_id_def)

lemma get_delegator_invalid: "\<not> signature_valid tx \<Longrightarrow> get_delegator E tx = Inr None"
  by (simp add: get_delegator_def)

lemma recovered_None_iff:
  "recovered E h sg = None \<longleftrightarrow>
     recover E h sg = None \<or> (\<exists>pk. recover E h sg = Some pk \<and> public_key_to_address E pk = None)"
  by (simp add: recovered_def split: option.splits)

lemma recovered_Some:
  "recover E h sg = Some pk \<Longrightarrow> public_key_to_address E pk = Some a \<Longrightarrow>
   recovered E h sg = Some a"
  by (simp add: recovered_def)

lemma get_delegator_eq:
  assumes "is_delegated tx" and "signature_valid tx" and "signature tx = Some sg"
    and "get_origin E tx = Inr (Some origin)"
  shows "get_delegator E tx =
     Inr (case get_signing_hash E tx (Some origin) of
            Inl e \<Rightarrow> None
          | Inr h \<Rightarrow> map_option (\<lambda>a. ''0x'' @ bytes_hex a) (recovered E h (drop 65 sg)))"
proof -
  from assms(2,3,4) have "origin \<noteq> []"
    by (auto simp: get_origin_eq split: sum.splits)
  then show ?thesis
    using assms
    by (simp add: get_delegator_def get_delegator_try_eq except_None_def truthy_str_def
        split: sum.splits option.splits)
qed

lemma get_delegator_no_origin:
  assumes "get_origin E tx = Inr None"
  shows "get_delegator E tx = Inr None"
  using assms by (simp add: get_delegator_def truthy_str_def)

text \<open>
  Claim C8. \<^verbatim>\<open>get_id\<close> returns \<^verbatim>\<open>None\<close> unless the signature is valid. With a valid
  signature it recovers the origin address from the first 65 signature bytes over the
  plain signing hash, as \<^verbatim>\<open>get_origin\<close> does, and returns \<^verbatim>\<open>'0x'\<close> followed by the hex
  digits of the hash of the signing hash and the origin address bytes, and \<^verbatim>\<open>None\<close>
  when a step fails. The hex digits are lowercase. Two transactions with the same Body
  and the same signature have the same id.
\<close>

theorem get_id_spec:
  "(\<not> signature_valid tx \<longrightarrow> get_id E tx = Inr None) \<and>
   (signature_valid tx \<and> signature tx = Some sg \<longrightarrow>
      get_id E tx =
        Inr (case get_signing_hash E tx None of
               Inl e \<Rightarrow> None
             | Inr h \<Rightarrow>
                 map_option (\<lambda>origin. ''0x'' @ bytes_hex (blake2b256 E [h, origin]))
                   (recovered E h (take 65 sg))) \<and>
      get_origin E tx =
        Inr (case get_signing_hash E tx None of
               Inl e \<Rightarrow> None
             | Inr h \<Rightarrow>
                 map_option (\<lambda>origin. ''0x'' @ bytes_hex origin)
                   (recovered E h (take 65 sg)))) \<and>
   set (bytes_hex bs) \<subseteq> set ''0123456789abcdef'' \<and>
   (body t1 = body t2 \<and> signature t1 = signature t2 \<longrightarrow> get_id E t1 = get_id E t2)"
proof (intro conjI impI)
  show "get_id E tx = Inr None" if "\<not> signature_valid tx"
    using that by (rule get_id_invalid)
  show "get_id E tx =
        Inr (case get_signing_hash E tx None of
               Inl e \<Rightarrow> None
             | Inr h \<Rightarrow>
                 map_option (\<lambda>origin. ''0x'' @ bytes_hex (blake2b256 E [h, origin]))
                   (recovered E h (take 65 sg)))"
    if "signature_valid tx \<and> signature tx = Some sg"
    using that get_id_eq by blast
  show "get_origin E tx =
        Inr (case get_signing_hash E tx None of
               Inl e \<Rightarrow> None
             | Inr h \<Rightarrow>
                 map_option (\<lambda>origin. ''0x'' @ bytes_hex origin)
                   (recovered E h (take 65 sg)))"
    if "signature_valid tx \<and> signature tx = Some sg"
    using that get_origin_eq by blast
  show "set (bytes_hex bs) \<subseteq> set ''0123456789abcdef''"
    by (rule bytes_hex_lowercase)
  show "get_id E t1 = get_id E t2" if "body t1 = body t2 \<and> signature t1 = signature t2"
  proof -
    from that have "t1 = t2"
      by simp
    then show ?thesis
      by simp
  qed
qed

theorem get_id_spec_witness:
  "signature_valid (demo_delegated_tx (Some demo_sig)) \<and>
   signature (demo_delegated_tx (Some demo_sig)) = Some demo_sig \<and>
   get_id demo_env (demo_delegated_tx (Some demo_sig))
     = Inr (Some ''0x0300000000000000000000000000000000000000000000000000000000000000'') \<and>
   get_origin demo_env (demo_delegated_tx (Some demo_sig))
     = Inr (Some ''0x1111111111111111111111111111111111111111'') \<and>
   \<not> signature_valid (demo_delegated_tx (Some (replicate 65 17))) \<and>
   get_id demo_env (demo_delegated_tx (Some (replicate 65 17))) = Inr None"
proof -
  let ?tx = "demo_delegated_tx (Some demo_sig)"
  let ?ty = "demo_delegated_tx (Some (replicate 65 17))"
  have h1: "signature_valid ?tx"
    by code_simp
  have h2: "signature ?tx = Some demo_sig"
    by (simp add: demo_delegated_tx_def demo_tx_def)
  have h3: "\<not> signature_valid ?ty"
    by code_simp
  have h4: "get_signing_hash demo_env ?tx None = Inr (3 # replicate 31 0)"
    by code_simp
  have h5: "recovered demo_env (3 # replicate 31 0) (take 65 demo_sig) = Some (replicate 20 17)"
    by code_simp
  have h6: "''0x'' @ bytes_hex (blake2b256 demo_env [3 # replicate 31 0, replicate 20 17])
      = ''0x0300000000000000000000000000000000000000000000000000000000000000''"
    by code_simp
  have h7: "''0x'' @ bytes_hex (replicate 20 17) = ''0x1111111111111111111111111111111111111111''"
    by code_simp
  note a = get_id_spec [where E = demo_env and tx = ?tx and sg = demo_sig and ?t1.0 = ?tx
      and ?t2.0 = ?tx and bs = "[]"]
  note b = get_id_spec [where E = demo_env and tx = ?ty and sg = demo_sig and ?t1.0 = ?tx
      and ?t2.0 = ?tx and bs = "[]"]
  have "get_id demo_env ?tx
      = Inr (Some ''0x0300000000000000000000000000000000000000000000000000000000000000'')"
    using a [THEN conjunct2, THEN conjunct1] h1 h2 h4 h5 h6 by simp
  moreover have "get_origin demo_env ?tx
      = Inr (Some ''0x1111111111111111111111111111111111111111'')"
    using a [THEN conjunct2, THEN conjunct1] h1 h2 h4 h5 h7 by simp
  moreover have "get_id demo_env ?ty = Inr None"
    using b [THEN conjunct1] h3 by simp
  ultimately show ?thesis
    using h1 h2 h3 by simp
qed

text \<open>
  Claim C6. \<^verbatim>\<open>get_origin\<close>, \<^verbatim>\<open>get_delegator\<close> and \<^verbatim>\<open>get_id\<close> never raise. Each returns
  \<^verbatim>\<open>None\<close> when the signature is absent or its length is not 130 for a delegated
  transaction and 65 otherwise, and when the signing hash, the public-key recovery or
  the address derivation fails; \<^verbatim>\<open>get_delegator\<close> also when its own second recovery
  fails. On a delegated transaction with a 130-byte signature whose first half recovers,
  over the signing hash, to a key with address \<open>a1\<close> (an address for the validator),
  and whose second half recovers, over the hash of the signing hash and \<open>a1\<close>, to a key
  with address \<open>a2\<close>, \<^verbatim>\<open>get_origin\<close> returns \<open>a1\<close> and \<^verbatim>\<open>get_delegator\<close> returns \<open>a2\<close>.
\<close>

theorem recovery_accessors_never_raise:
  "get_origin E tx \<noteq> Inl e \<and> get_delegator E tx \<noteq> Inl e \<and> get_id E tx \<noteq> Inl e \<and>
   (signature tx = None \<or>
    (\<exists>s. signature tx = Some s \<and> length s \<noteq> (if is_delegated tx then 130 else 65)) \<longrightarrow>
      get_origin E tx = Inr None \<and> get_delegator E tx = Inr None \<and> get_id E tx = Inr None) \<and>
   (signature tx = Some sg \<and>
    (get_signing_hash E tx None = Inl e' \<or>
     get_signing_hash E tx None = Inr h \<and>
     (recover E h (take 65 sg) = None \<or>
      (\<exists>pk. recover E h (take 65 sg) = Some pk \<and> public_key_to_address E pk = None))) \<longrightarrow>
      get_origin E tx = Inr None \<and> get_delegator E tx = Inr None \<and> get_id E tx = Inr None) \<and>
   (signature tx = Some sg \<and> get_origin E tx = Inr (Some origin) \<and>
    (get_signing_hash E tx (Some origin) = Inl e' \<or>
     get_signing_hash E tx (Some origin) = Inr h2 \<and>
     (recover E h2 (drop 65 sg) = None \<or>
      (\<exists>pk. recover E h2 (drop 65 sg) = Some pk \<and> public_key_to_address E pk = None))) \<longrightarrow>
      get_delegator E tx = Inr None) \<and>
   (is_delegated tx \<and> signature tx = Some sg \<and> length sg = 130 \<and>
    get_signing_hash E tx None = Inr h \<and>
    recover E h (take 65 sg) = Some pk1 \<and> public_key_to_address E pk1 = Some a1 \<and>
    is_address E (''0x'' @ bytes_hex a1) \<and>
    recover E (blake2b256 E [h, a1]) (drop 65 sg) = Some pk2 \<and>
    public_key_to_address E pk2 = Some a2 \<longrightarrow>
      get_origin E tx = Inr (Some (''0x'' @ bytes_hex a1)) \<and>
      get_delegator E tx = Inr (Some (''0x'' @ bytes_hex a2)))"
proof (intro conjI impI)
  show "get_origin E tx \<noteq> Inl e" "get_delegator E tx \<noteq> Inl e" "get_id E tx \<noteq> Inl e"
    by (rule get_origin_not_Inl get_delegator_not_Inl get_id_not_Inl)+
next
  assume "signature tx = None \<or>
    (\<exists>s. signature tx = Some s \<and> length s \<noteq> (if is_delegated tx then 130 else 65))"
  then have nv: "\<not> signature_valid tx"
    unfolding signature_valid_iff by auto
  show "get_origin E tx = Inr None" "get_delegator E tx = Inr None" "get_id E tx = Inr None"
    using nv by (rule get_origin_invalid get_delegator_invalid get_id_invalid)+
next
  assume a: "signature tx = Some sg \<and>
    (get_signing_hash E tx None = Inl e' \<or>
     get_signing_hash E tx None = Inr h \<and>
     (recover E h (take 65 sg) = None \<or>
      (\<exists>pk. recover E h (take 65 sg) = Some pk \<and> public_key_to_address E pk = None)))"
  then have f: "get_signing_hash E tx None = Inl e' \<or>
     get_signing_hash E tx None = Inr h \<and> recovered E h (take 65 sg) = None"
    unfolding recovered_None_iff by blast
  show o: "get_origin E tx = Inr None"
  proof (cases "signature_valid tx")
    case True
    then show ?thesis
      using a f by (auto simp: get_origin_eq)
  next
    case False
    then show ?thesis by (rule get_origin_invalid)
  qed
  show "get_id E tx = Inr None"
  proof (cases "signature_valid tx")
    case True
    then show ?thesis
      using a f by (auto simp: get_id_eq)
  next
    case False
    then show ?thesis by (rule get_id_invalid)
  qed
  show "get_delegator E tx = Inr None"
    using o by (rule get_delegator_no_origin)
next
  assume a: "signature tx = Some sg \<and> get_origin E tx = Inr (Some origin) \<and>
    (get_signing_hash E tx (Some origin) = Inl e' \<or>
     get_signing_hash E tx (Some origin) = Inr h2 \<and>
     (recover E h2 (drop 65 sg) = None \<or>
      (\<exists>pk. recover E h2 (drop 65 sg) = Some pk \<and> public_key_to_address E pk = None)))"
  then have f: "get_signing_hash E tx (Some origin) = Inl e' \<or>
     get_signing_hash E tx (Some origin) = Inr h2 \<and> recovered E h2 (drop 65 sg) = None"
    unfolding recovered_None_iff by blast
  show "get_delegator E tx = Inr None"
  proof (cases "is_delegated tx \<and> signature_valid tx")
    case True
    then show ?thesis
      using a f get_delegator_eq [of tx sg E origin] by auto
  next
    case False
    then show ?thesis
      by (auto simp: get_delegator_def)
  qed
next
  assume a: "is_delegated tx \<and> signature tx = Some sg \<and> length sg = 130 \<and>
    get_signing_hash E tx None = Inr h \<and>
    recover E h (take 65 sg) = Some pk1 \<and> public_key_to_address E pk1 = Some a1 \<and>
    is_address E (''0x'' @ bytes_hex a1) \<and>
    recover E (blake2b256 E [h, a1]) (drop 65 sg) = Some pk2 \<and>
    public_key_to_address E pk2 = Some a2"
  then have v: "signature_valid tx"
    unfolding signature_valid_iff by simp
  have r1: "recovered E h (take 65 sg) = Some a1"
    using a by (simp add: recovered_Some)
  have r2: "recovered E (blake2b256 E [h, a1]) (drop 65 sg) = Some a2"
    using a by (simp add: recovered_Some)
  show o: "get_origin E tx = Inr (Some (''0x'' @ bytes_hex a1))"
    using a v r1 by (simp add: get_origin_eq)
  have "get_signing_hash E tx (Some (''0x'' @ bytes_hex a1)) = Inr (blake2b256 E [h, a1])"
    using a by (simp add: get_signing_hash_delegate bytes_fromhex_bytes_hex)
  then show "get_delegator E tx = Inr (Some (''0x'' @ bytes_hex a2))"
    using a v o r2 get_delegator_eq [of tx sg E "''0x'' @ bytes_hex a1"] by simp
qed

theorem recovery_accessors_never_raise_witness:
  "is_delegated (demo_delegated_tx (Some demo_sig)) \<and>
   length demo_sig = 130 \<and>
   get_origin demo_env (demo_delegated_tx (Some demo_sig))
     = Inr (Some ''0x1111111111111111111111111111111111111111'') \<and>
   get_delegator demo_env (demo_delegated_tx (Some demo_sig))
     = Inr (Some ''0x2222222222222222222222222222222222222222'') \<and>
   get_origin demo_env (demo_delegated_tx (Some (replicate 65 17))) = Inr None \<and>
   get_delegator demo_env (demo_delegated_tx (Some (replicate 65 17))) = Inr None \<and>
   get_id demo_env (demo_delegated_tx (Some (replicate 65 17))) = Inr None \<and>
   get_origin demo_env (demo_delegated_tx None) = Inr None \<and>
   get_origin (demo_env\<lparr>recover := \<lambda>h s. None\<rparr>) (demo_delegated_tx (Some demo_sig)) = Inr None \<and>
   get_id (demo_env\<lparr>recover := \<lambda>h s. None\<rparr>) (demo_delegated_tx (Some demo_sig)) = Inr None \<and>
   get_delegator
     (demo_env\<lparr>recover := \<lambda>h s. if s = replicate 65 17 then Some s else None\<rparr>)
     (demo_delegated_tx (Some demo_sig)) = Inr None"
proof -
  let ?tx = "demo_delegated_tx (Some demo_sig)"
  let ?ty = "demo_delegated_tx (Some (replicate 65 17))"
  let ?tn = "demo_delegated_tx None"
  let ?E0 = "demo_env\<lparr>recover := \<lambda>h s. None\<rparr>"
  let ?E1 = "demo_env\<lparr>recover := \<lambda>h s. if s = replicate 65 17 then Some s else None\<rparr>"
  let ?h = "3 # replicate 31 (0 :: 8 word)"
  let ?o = "''0x1111111111111111111111111111111111111111''"
  have d: "is_delegated ?tx" "is_delegated ?ty"
    by code_simp+
  have sg: "signature ?tx = Some demo_sig" "signature ?ty = Some (replicate 65 17)"
    "signature ?tn = None"
    by (simp_all add: demo_delegated_tx_def demo_tx_def)
  have ln: "length demo_sig = 130"
    by (simp add: demo_sig_def)
  have h: "get_signing_hash demo_env ?tx None = Inr ?h"
    by code_simp
  have r1: "recover demo_env ?h (take 65 demo_sig) = Some (replicate 65 17)"
    by code_simp
  have p1: "public_key_to_address demo_env (replicate 65 17) = Some (replicate 20 17)"
    by code_simp
  have ia: "is_address demo_env (''0x'' @ bytes_hex (replicate 20 17))"
    by code_simp
  have r2: "recover demo_env (blake2b256 demo_env [?h, replicate 20 17]) (drop 65 demo_sig)
      = Some (replicate 65 34)"
    by code_simp
  have p2: "public_key_to_address demo_env (replicate 65 34) = Some (replicate 20 34)"
    by code_simp
  have x1: "''0x'' @ bytes_hex (replicate 20 17) = ?o"
    by code_simp
  have x2: "''0x'' @ bytes_hex (replicate 20 34) = ''0x2222222222222222222222222222222222222222''"
    by code_simp
  have h0: "get_signing_hash ?E0 ?tx None = Inr ?h"
    by code_simp
  have o1: "get_origin ?E1 ?tx = Inr (Some ?o)"
    by code_simp
  have h1: "get_signing_hash ?E1 ?tx (Some ?o) = Inr ?h"
    by code_simp
  have f1: "recover ?E1 ?h (drop 65 demo_sig) = None"
    by code_simp
  note a = recovery_accessors_never_raise [where E = demo_env and tx = ?tx and sg = demo_sig
      and h = ?h and ?pk1.0 = "replicate 65 17" and ?a1.0 = "replicate 20 17"
      and ?pk2.0 = "replicate 65 34" and ?a2.0 = "replicate 20 34"]
  note b = recovery_accessors_never_raise [where E = demo_env and tx = ?ty]
  note n = recovery_accessors_never_raise [where E = demo_env and tx = ?tn]
  note c = recovery_accessors_never_raise [where E = ?E0 and tx = ?tx and sg = demo_sig
      and h = ?h]
  note e = recovery_accessors_never_raise [where E = ?E1 and tx = ?tx and sg = demo_sig
      and origin = ?o and ?h2.0 = ?h]
  note a7 = a [THEN conjunct2, THEN conjunct2, THEN conjunct2, THEN conjunct2,
      THEN conjunct2, THEN conjunct2]
  note b4 = b [THEN conjunct2, THEN conjunct2, THEN conjunct2, THEN conjunct1]
  note n4 = n [THEN conjunct2, THEN conjunct2, THEN conjunct2, THEN conjunct1]
  note c5 = c [THEN conjunct2, THEN conjunct2, THEN conjunct2, THEN conjunct2, THEN conjunct1]
  note e6 = e [THEN conjunct2, THEN conjunct2, THEN conjunct2, THEN conjunct2,
      THEN conjunct2, THEN conjunct1]
  have A: "get_origin demo_env ?tx = Inr (Some ?o) \<and>
      get_delegator demo_env ?tx = Inr (Some ''0x2222222222222222222222222222222222222222'')"
    using a7 d(1) sg(1) ln h r1 p1 ia r2 p2 x1 x2 by simp
  have B: "get_origin demo_env ?ty = Inr None \<and> get_delegator demo_env ?ty = Inr None \<and>
      get_id demo_env ?ty = Inr None"
    using b4 d(2) sg(2) by simp
  have N: "get_origin demo_env ?tn = Inr None"
    using n4 sg(3) by simp
  have C: "get_origin ?E0 ?tx = Inr None \<and> get_id ?E0 ?tx = Inr None"
    using c5 sg(1) h0 by simp
  have D: "get_delegator ?E1 ?tx = Inr None"
    using e6 sg(1) o1 h1 f1 by simp
  show ?thesis
    using d(1) ln A B N C D by simp
qed

section \<open>Round trip of encode and decode\<close>


lemma k_reserved_Body_to_dict:
  "k_reserved (Body_to_dict b) =
     (case reserved b of
        None \<Rightarrow> None
      | Some rsv \<Rightarrow>
          Some \<lparr>k_features = (if truthy_int (features rsv) then features rsv else None),
                k_unused = (if truthy_list (unused rsv) then unused rsv else None)\<rparr>)"
  by (simp add: Body_to_dict_def)


lemma Clause_to_dict_inj: "inj Clause_to_dict"
proof (rule injI)
  fix c c' :: Clause
  assume "Clause_to_dict c = Clause_to_dict c'"
  then show "c = c'"
    by (cases c, cases c') (simp add: Clause_to_dict_def)
qed

lemma Body_to_dict_eq_iff:
  "Body_to_dict a = Body_to_dict b \<longleftrightarrow>
     chain_tag a = chain_tag b \<and> block_ref a = block_ref b \<and> expiration a = expiration b \<and>
     clauses a = clauses b \<and> gas_price_coef a = gas_price_coef b \<and> gas a = gas b \<and>
     depends_on a = depends_on b \<and> nonce a = nonce b \<and>
     k_reserved (Body_to_dict a) = k_reserved (Body_to_dict b)"
proof -
  have "map Clause_to_dict (clauses a) = map Clause_to_dict (clauses b) \<longleftrightarrow>
      clauses a = clauses b"
    by (rule inj_map_eq_map [OF Clause_to_dict_inj])
  then show ?thesis
    unfolding k_reserved_Body_to_dict
    by (auto simp: Body_to_dict_def)
qed




text \<open>
  A Reserved whose \<^verbatim>\<open>features\<close> and \<^verbatim>\<open>unused\<close> are both false does not survive the wire,
  whatever the codec that decodes the dict it was handed: the decoded Body has no
  Reserved and is not equal to the original.
\<close>

lemma roundtrip_drops_false_reserved:
  assumes rs: "reserved (body tx) = Some r"
    and ff: "\<not> truthy_int (features r)" and fu: "\<not> truthy_list (unused r)"
    and sg: "signature tx \<noteq> Some []"
    and enc: "encode E tx = Inr raw"
    and cd: "\<forall>rl. encode_reserved E tx = Inr rl \<longrightarrow>
        (signature tx = None \<longrightarrow>
           UnsignedTx_decode E raw = Some (update_reserved (Body_to_dict (body tx)) rl)) \<and>
        (\<forall>sg. signature tx = Some sg \<longrightarrow>
           SignedTx_decode E raw =
             Some (tx_dict.extend (update_reserved (Body_to_dict (body tx)) rl)
                     \<lparr>k_signature = Some sg\<rparr>))"
    and z1: "FeaturesKind_serialize E 0 = Some []"
  shows "\<exists>tx'. decode E raw (signature tx = None) = Inr tx' \<and> reserved (body tx') = None \<and>
     \<not> Transaction_eq tx' tx"
proof -
  have rf: "reserved_features (body tx) = 0"
    using rs ff by (simp add: reserved_features_def truthy_int_def split: option.splits)
  have ru: "reserved_unused (body tx) = []"
    using rs fu by (simp add: reserved_unused_def truthy_list_def split: option.splits)
  have er: "encode_reserved E tx = Inr []"
    using rf ru z1 by (simp add: encode_reserved_eq strip_trailing_empty_def)
  define temp where "temp = update_reserved (Body_to_dict (body tx)) ([] :: bytes list)"
  have kt: "k_reserved temp = []"
    by (simp add: temp_def update_reserved_def)
  have dd: "decode_dict E raw (signature tx = None) = Inr (temp, signature tx)"
  proof (cases "signature tx")
    case None
    with cd er have "UnsignedTx_decode E raw = Some temp"
      unfolding temp_def by blast
    then show ?thesis
      using None by (simp add: decode_dict_unsigned)
  next
    case (Some s)
    with cd er have "SignedTx_decode E raw =
        Some (tx_dict.extend temp \<lparr>k_signature = Some s\<rparr>)"
      unfolding temp_def by blast
    then show ?thesis
      using Some by (simp add: decode_dict_signed tx_dict.defs)
  qed
  from decode_empty_reserved [OF dd kt] obtain tx'
    where d: "decode E raw (signature tx = None) = Inr tx'" and n: "reserved (body tx') = None"
    by blast
  have "k_reserved (Body_to_dict (body tx')) = None"
    using n by (simp add: k_reserved_Body_to_dict)
  moreover have "k_reserved (Body_to_dict (body tx)) \<noteq> None"
    using rs by (simp add: k_reserved_Body_to_dict)
  ultimately have "k_reserved (Body_to_dict (body tx')) \<noteq> k_reserved (Body_to_dict (body tx))"
    by auto
  then have "\<not> Transaction_eq tx' tx"
    unfolding Transaction_eq_def Let_def Body_to_dict_eq_iff by blast
  with d n show ?thesis
    by blast
qed




end
